theory Spec2Isabelle
  imports Complex_Main
begin

section \<open>JavaScript numbers\<close>

text \<open>
  A JavaScript \<^verbatim>\<open>number\<close> is an IEEE-754 double: a finite value, one of the two
  infinities, or NaN. The vector primitives are modelled over this type, because the
  source guards a division and the question is which non-finite results remain possible.
  Finite results are kept exact (rounding and the sign of zero are not modelled); a result
  whose magnitude reaches \<open>2 ^ 1024\<close> overflows to the infinity of its sign, as every
  double operation does.
\<close>

datatype jsnum = Fin real | PInf | NInf | NaN

definition JS_OVERFLOW :: real where
  "JS_OVERFLOW = 2 ^ 1024"

definition js_of_real :: "real \<Rightarrow> jsnum" where
  "js_of_real r = (if JS_OVERFLOW \<le> r then PInf else if r \<le> - JS_OVERFLOW then NInf else Fin r)"

fun js_add :: "jsnum \<Rightarrow> jsnum \<Rightarrow> jsnum" where
  "js_add (Fin a) (Fin b) = js_of_real (a + b)"
| "js_add (Fin a) PInf = PInf"
| "js_add (Fin a) NInf = NInf"
| "js_add PInf (Fin b) = PInf"
| "js_add PInf PInf = PInf"
| "js_add NInf (Fin b) = NInf"
| "js_add NInf NInf = NInf"
| "js_add _ _ = NaN"

fun js_sub :: "jsnum \<Rightarrow> jsnum \<Rightarrow> jsnum" where
  "js_sub (Fin a) (Fin b) = js_of_real (a - b)"
| "js_sub (Fin a) PInf = NInf"
| "js_sub (Fin a) NInf = PInf"
| "js_sub PInf (Fin b) = PInf"
| "js_sub PInf NInf = PInf"
| "js_sub NInf (Fin b) = NInf"
| "js_sub NInf PInf = NInf"
| "js_sub _ _ = NaN"

fun js_mul :: "jsnum \<Rightarrow> jsnum \<Rightarrow> jsnum" where
  "js_mul (Fin a) (Fin b) = js_of_real (a * b)"
| "js_mul (Fin a) PInf = (if a = 0 then NaN else if 0 < a then PInf else NInf)"
| "js_mul (Fin a) NInf = (if a = 0 then NaN else if 0 < a then NInf else PInf)"
| "js_mul PInf (Fin b) = (if b = 0 then NaN else if 0 < b then PInf else NInf)"
| "js_mul NInf (Fin b) = (if b = 0 then NaN else if 0 < b then NInf else PInf)"
| "js_mul PInf PInf = PInf"
| "js_mul NInf NInf = PInf"
| "js_mul PInf NInf = NInf"
| "js_mul NInf PInf = NInf"
| "js_mul _ _ = NaN"

fun js_div :: "jsnum \<Rightarrow> jsnum \<Rightarrow> jsnum" where
  "js_div (Fin a) (Fin b) =
     (if b = 0 then (if a = 0 then NaN else if 0 < a then PInf else NInf)
      else js_of_real (a / b))"
| "js_div (Fin a) PInf = Fin 0"
| "js_div (Fin a) NInf = Fin 0"
| "js_div PInf (Fin b) = (if 0 \<le> b then PInf else NInf)"
| "js_div NInf (Fin b) = (if 0 \<le> b then NInf else PInf)"
| "js_div _ _ = NaN"

fun js_sqrt :: "jsnum \<Rightarrow> jsnum" where
  "js_sqrt (Fin a) = (if a < 0 then NaN else Fin (sqrt a))"
| "js_sqrt PInf = PInf"
| "js_sqrt _ = NaN"

text \<open>Comparisons with NaN are false; \<^verbatim>\<open>!==\<close> with NaN is true.\<close>

fun js_lt :: "jsnum \<Rightarrow> jsnum \<Rightarrow> bool" where
  "js_lt (Fin a) (Fin b) = (a < b)"
| "js_lt (Fin a) PInf = True"
| "js_lt NInf (Fin b) = True"
| "js_lt NInf PInf = True"
| "js_lt _ _ = False"

fun js_le :: "jsnum \<Rightarrow> jsnum \<Rightarrow> bool" where
  "js_le (Fin a) (Fin b) = (a \<le> b)"
| "js_le (Fin a) PInf = True"
| "js_le NInf (Fin b) = True"
| "js_le NInf PInf = True"
| "js_le PInf PInf = True"
| "js_le NInf NInf = True"
| "js_le _ _ = False"

definition js_gt :: "jsnum \<Rightarrow> jsnum \<Rightarrow> bool" where
  "js_gt a b = js_lt b a"

fun js_strict_eq :: "jsnum \<Rightarrow> jsnum \<Rightarrow> bool" where
  "js_strict_eq (Fin a) (Fin b) = (a = b)"
| "js_strict_eq PInf PInf = True"
| "js_strict_eq NInf NInf = True"
| "js_strict_eq _ _ = False"

fun is_finite :: "jsnum \<Rightarrow> bool" where
  "is_finite (Fin a) = True"
| "is_finite _ = False"


section \<open>Vector2D\<close>

text \<open>
  The class mutates \<^verbatim>\<open>this\<close> and returns it; the model returns the updated vector.
\<close>

record Vector2D =
  vec_x :: jsnum
  vec_y :: jsnum

definition clone :: "Vector2D \<Rightarrow> Vector2D" where
  "clone v = \<lparr>vec_x = vec_x v, vec_y = vec_y v\<rparr>"

definition set_xy :: "jsnum \<Rightarrow> jsnum \<Rightarrow> Vector2D \<Rightarrow> Vector2D" where
  "set_xy a b v = v\<lparr>vec_x := a, vec_y := b\<rparr>"

definition multiply :: "jsnum \<Rightarrow> Vector2D \<Rightarrow> Vector2D" where
  "multiply scalar v = v\<lparr>vec_x := js_mul (vec_x v) scalar, vec_y := js_mul (vec_y v) scalar\<rparr>"

definition divide_vec :: "jsnum \<Rightarrow> Vector2D \<Rightarrow> Vector2D" where
  "divide_vec scalar v =
     (if \<not> js_strict_eq scalar (Fin 0)
      then v\<lparr>vec_x := js_div (vec_x v) scalar, vec_y := js_div (vec_y v) scalar\<rparr>
      else v)"

definition magnitude :: "Vector2D \<Rightarrow> jsnum" where
  "magnitude v = js_sqrt (js_add (js_mul (vec_x v) (vec_x v)) (js_mul (vec_y v) (vec_y v)))"

definition normalize_vec :: "Vector2D \<Rightarrow> Vector2D" where
  "normalize_vec v = (let mag = magnitude v in if js_gt mag (Fin 0) then divide_vec mag v else v)"

definition distanceTo :: "Vector2D \<Rightarrow> Vector2D \<Rightarrow> jsnum" where
  "distanceTo v w =
     (let dx = js_sub (vec_x v) (vec_x w); dy = js_sub (vec_y v) (vec_y w)
      in js_sqrt (js_add (js_mul dx dx) (js_mul dy dy)))"


section \<open>Ship\<close>

text \<open>
  Health, damage, times and angles are finite numbers throughout the simulation and are
  modelled as reals. The constants are those of \<^verbatim>\<open>GAME_CONSTANTS.SHIP\<close>.
\<close>

definition SHIP_ROTATION_SPEED :: real where "SHIP_ROTATION_SPEED = 4"
definition SHIP_MAX_HEALTH :: real where "SHIP_MAX_HEALTH = 100"
definition SHIP_COLLISION_RADIUS :: real where "SHIP_COLLISION_RADIUS = 16"
definition SHIP_INVULNERABILITY_TIME :: real where "SHIP_INVULNERABILITY_TIME = 2000"
definition SHIP_SIZE :: real where "SHIP_SIZE = 32"

record ShipInput =
  thrust :: bool
  rotateLeft :: bool
  rotateRight :: bool
  shoot :: bool

record Ship =
  position :: Vector2D
  velocity :: Vector2D
  acceleration :: Vector2D
  rotation :: real
  angularVelocity :: real
  health :: real
  maxHealth :: real
  isAlive :: bool
  lastShotTime :: real
  invulnerableUntil :: real
  playerId :: int
  color :: string
  input :: ShipInput
  ship_size :: real
  collisionRadius :: real

definition getPlayerColor :: "int \<Rightarrow> string" where
  "getPlayerColor playerIndex = (if playerIndex = 0 then ''#00ff88'' else ''#ff4444'')"

text \<open>The constructor \<^verbatim>\<open>new Ship(playerId, spawnPosition)\<close>.\<close>

definition new_Ship :: "int \<Rightarrow> Vector2D \<Rightarrow> Ship" where
  "new_Ship pid spawnPosition =
     \<lparr>position = clone spawnPosition,
      velocity = \<lparr>vec_x = Fin 0, vec_y = Fin 0\<rparr>,
      acceleration = \<lparr>vec_x = Fin 0, vec_y = Fin 0\<rparr>,
      rotation = (if pid = 0 then 0 else pi),
      angularVelocity = 0,
      health = SHIP_MAX_HEALTH,
      maxHealth = SHIP_MAX_HEALTH,
      isAlive = True,
      lastShotTime = 0,
      invulnerableUntil = 0,
      playerId = pid,
      color = getPlayerColor pid,
      input = \<lparr>thrust = False, rotateLeft = False, rotateRight = False, shoot = False\<rparr>,
      ship_size = SHIP_SIZE,
      collisionRadius = SHIP_COLLISION_RADIUS\<rparr>"

definition isInvulnerable :: "real \<Rightarrow> Ship \<Rightarrow> bool" where
  "isInvulnerable currentTime s = (currentTime < invulnerableUntil s)"

definition die :: "Ship \<Rightarrow> Ship" where
  "die s = s\<lparr>isAlive := False,
             velocity := set_xy (Fin 0) (Fin 0) (velocity s),
             acceleration := set_xy (Fin 0) (Fin 0) (acceleration s)\<rparr>"

text \<open>\<^verbatim>\<open>takeDamage\<close> returns whether the ship was killed, with the updated ship.\<close>

definition takeDamage :: "real \<Rightarrow> real \<Rightarrow> Ship \<Rightarrow> bool \<times> Ship" where
  "takeDamage damage currentTime s =
     (if \<not> isAlive s \<or> isInvulnerable currentTime s then (False, s)
      else let s1 = s\<lparr>health := health s - damage\<rparr>
           in if health s1 \<le> 0 then (True, die (s1\<lparr>health := 0\<rparr>))
              else (False, s1))"

definition respawn :: "Vector2D \<Rightarrow> real \<Rightarrow> Ship \<Rightarrow> Ship" where
  "respawn spawnPosition currentTime s =
     s\<lparr>position := clone spawnPosition,
       velocity := set_xy (Fin 0) (Fin 0) (velocity s),
       acceleration := set_xy (Fin 0) (Fin 0) (acceleration s),
       rotation := (if playerId s = 0 then 0 else pi),
       health := maxHealth s,
       isAlive := True,
       invulnerableUntil := currentTime + SHIP_INVULNERABILITY_TIME,
       input := \<lparr>thrust = False, rotateLeft = False, rotateRight = False, shoot = False\<rparr>\<rparr>"


section \<open>Projectile\<close>

record Projectile =
  proj_position :: Vector2D
  proj_velocity :: Vector2D
  proj_direction :: Vector2D
  ownerId :: int
  damage :: real
  speed :: real
  proj_size :: real
  proj_collisionRadius :: real
  isActive :: bool
  createdAt :: real
  lifespan :: real
  proj_color :: string

definition PROJECTILE_SPEED :: real where "PROJECTILE_SPEED = 400"
definition PROJECTILE_DAMAGE :: real where "PROJECTILE_DAMAGE = 25"
definition PROJECTILE_COLLISION_RADIUS :: real where "PROJECTILE_COLLISION_RADIUS = 4"
definition PROJECTILE_SIZE :: real where "PROJECTILE_SIZE = 8"

text \<open>
  The constructor \<^verbatim>\<open>new Projectile(ownerId, startPosition, direction, color)\<close>. It
  reads the clock (\<open>now\<close>) and \<^verbatim>\<open>GAME_CONSTANTS.PROJECTILE.LIFESPAN\<close>, an entry the
  constants table does not have (\<open>LIFESPAN\<close>).
\<close>

definition new_Projectile ::
  "real \<Rightarrow> real \<Rightarrow> int \<Rightarrow> Vector2D \<Rightarrow> Vector2D \<Rightarrow> string \<Rightarrow> Projectile" where
  "new_Projectile LIFESPAN now owner startPosition direction col =
     (let dir = normalize_vec (clone direction)
      in \<lparr>proj_position = clone startPosition,
          proj_velocity = multiply (Fin PROJECTILE_SPEED) (clone dir),
          proj_direction = dir,
          ownerId = owner,
          damage = PROJECTILE_DAMAGE,
          speed = PROJECTILE_SPEED,
          proj_size = PROJECTILE_SIZE,
          proj_collisionRadius = PROJECTILE_COLLISION_RADIUS,
          isActive = True,
          createdAt = now,
          lifespan = LIFESPAN,
          proj_color = col\<rparr>)"

definition checkCollision :: "Vector2D \<Rightarrow> real \<Rightarrow> Projectile \<Rightarrow> bool" where
  "checkCollision targetPosition targetRadius p =
     (if \<not> isActive p then False
      else js_le (distanceTo (proj_position p) targetPosition)
                 (js_add (Fin (proj_collisionRadius p)) (Fin targetRadius)))"

definition checkShipCollision :: "Ship \<Rightarrow> Projectile \<Rightarrow> bool" where
  "checkShipCollision ship p =
     (if \<not> isActive p \<or> \<not> isAlive ship \<or> playerId ship = ownerId p then False
      else checkCollision (position ship) (collisionRadius ship) p)"

definition onCollision :: "Projectile \<Rightarrow> Projectile" where
  "onCollision p = p\<lparr>isActive := False\<rparr>"



section \<open>GameState\<close>

text \<open>
  A JavaScript \<^verbatim>\<open>Map\<close> iterates in insertion order, and \<^verbatim>\<open>set\<close> on a present
  key replaces the value where it stands: an association list.
\<close>

type_synonym ('k, 'v) jsmap = "('k \<times> 'v) list"

fun map_get :: "('k, 'v) jsmap \<Rightarrow> 'k \<Rightarrow> 'v option" where
  "map_get [] k = None"
| "map_get ((k', v) # m) k = (if k' = k then Some v else map_get m k)"

fun map_set :: "'k \<Rightarrow> 'v \<Rightarrow> ('k, 'v) jsmap \<Rightarrow> ('k, 'v) jsmap" where
  "map_set k v [] = [(k, v)]"
| "map_set k v ((k', v') # m) = (if k' = k then (k, v) # m else (k', v') # map_set k v m)"

definition map_values :: "('k, 'v) jsmap \<Rightarrow> 'v list" where
  "map_values m = map snd m"

text \<open>
  The \<^verbatim>\<open>GAME\<close> entry of \<^verbatim>\<open>GAME_CONSTANTS\<close>, as the constants table has it. Reading
  a property that an object does not have gives \<^verbatim>\<open>undefined\<close> (\<open>None\<close>), and
  \<^verbatim>\<open>undefined\<close> used as a number is NaN. The simulation reads \<^verbatim>\<open>MAX_PLAYERS\<close>,
  \<^verbatim>\<open>SCORE_LIMIT\<close>, \<^verbatim>\<open>TIME_LIMIT\<close>, \<^verbatim>\<open>KILL_SCORE\<close> and \<^verbatim>\<open>RESPAWN_DELAY\<close>
  from this entry.
\<close>

definition GAME_CONSTANTS_GAME :: "(string, jsnum) jsmap" where
  "GAME_CONSTANTS_GAME =
     [(''SCORE_TO_WIN'', Fin 5), (''MATCH_TIMEOUT'', Fin 300000),
      (''COUNTDOWN_TIME'', Fin 3000), (''END_GAME_DELAY'', Fin 3000)]"

definition to_number :: "jsnum option \<Rightarrow> jsnum" where
  "to_number v = (case v of None \<Rightarrow> NaN | Some n \<Rightarrow> n)"

definition js_ge :: "jsnum \<Rightarrow> jsnum \<Rightarrow> bool" where
  "js_ge a b = js_le b a"

text \<open>A number in a condition: 0 and NaN count as false.\<close>

fun js_truthy :: "jsnum \<Rightarrow> bool" where
  "js_truthy (Fin a) = (a \<noteq> 0)"
| "js_truthy PInf = True"
| "js_truthy NInf = True"
| "js_truthy NaN = False"

text \<open>
  The score of a player is a JavaScript number, since the kill resolution adds a constant
  of the table to it; kills and deaths are only ever counted up by one.
\<close>

record Player =
  pl_id :: int
  pl_name :: string
  score :: jsnum
  kills :: int
  deaths :: int
  isConnected :: bool

datatype GameMode = Deathmatch | Survival | Practice

text \<open>A callback handed to \<^verbatim>\<open>setTimeout\<close>, with the delay it is given.\<close>

datatype TimerAction = RespawnPlayer int

record GameState =
  ships :: "(int, Ship) jsmap"
  projectiles :: "Projectile list"
  isRunning :: bool
  isPaused :: bool
  gameStartTime :: real
  lastUpdateTime :: real
  players :: "(int, Player) jsmap"
  maxPlayers :: "jsnum option"
  gameMode :: GameMode
  scoreLimit :: "jsnum option"
  timeLimit :: "jsnum option"
  matchStartTime :: real
  matchEndTime :: real
  isMatchActive :: bool
  winner :: "int option"
  scheduled :: "(jsnum option \<times> TimerAction) list"

text \<open>The constructor.\<close>

definition new_GameState :: GameState where
  "new_GameState =
     \<lparr>ships = [], projectiles = [],
      isRunning = False, isPaused = False, gameStartTime = 0, lastUpdateTime = 0,
      players = [],
      maxPlayers = map_get GAME_CONSTANTS_GAME ''MAX_PLAYERS'',
      gameMode = Deathmatch,
      scoreLimit = map_get GAME_CONSTANTS_GAME ''SCORE_LIMIT'',
      timeLimit = map_get GAME_CONSTANTS_GAME ''TIME_LIMIT'',
      matchStartTime = 0, matchEndTime = 0, isMatchActive = False, winner = None,
      scheduled = []\<rparr>"

text \<open>
  \<^verbatim>\<open>GameEngine.configure\<close>, as far as it writes the simulation state: a setting that
  is given and truthy replaces the field (\<^verbatim>\<open>targetFPS\<close> belongs to the engine).
\<close>

record Settings =
  set_gameMode :: "GameMode option"
  set_scoreLimit :: "jsnum option"
  set_timeLimit :: "jsnum option"

definition configure :: "Settings \<Rightarrow> GameState \<Rightarrow> GameState" where
  "configure settings gs =
     (let gs1 = (case set_gameMode settings of Some m \<Rightarrow> gs\<lparr>gameMode := m\<rparr> | None \<Rightarrow> gs);
          gs2 = (case set_scoreLimit settings of
                   Some n \<Rightarrow> if js_truthy n then gs1\<lparr>scoreLimit := Some n\<rparr> else gs1
                 | None \<Rightarrow> gs1);
          gs3 = (case set_timeLimit settings of
                   Some n \<Rightarrow> if js_truthy n then gs2\<lparr>timeLimit := Some n\<rparr> else gs2
                 | None \<Rightarrow> gs2)
      in gs3)"

definition addPlayer :: "int \<Rightarrow> string \<Rightarrow> GameState \<Rightarrow> bool \<times> GameState" where
  "addPlayer pid playerName gs =
     (if js_ge (Fin (real (length (players gs)))) (to_number (maxPlayers gs)) then (False, gs)
      else (True, gs\<lparr>players := map_set pid
                         \<lparr>pl_id = pid, pl_name = playerName, score = Fin 0, kills = 0,
                          deaths = 0, isConnected = True\<rparr>
                         (players gs)\<rparr>))"

text \<open>
  \<^verbatim>\<open>winnerId || null\<close> and \<^verbatim>\<open>winnerId || undefined\<close>: a missing id and the
  falsy id \<open>0\<close> both give no id.
\<close>

definition or_null :: "int option \<Rightarrow> int option" where
  "or_null w = (case w of None \<Rightarrow> None | Some i \<Rightarrow> if i = 0 then None else Some i)"

definition setInput :: "ShipInput \<Rightarrow> Ship \<Rightarrow> Ship" where
  "setInput i s = s\<lparr>input := i\<rparr>"

text \<open>\<^verbatim>\<open>endMatch\<close> reads the clock; the reading is the parameter \<open>now\<close>.\<close>

definition endMatch :: "int option \<Rightarrow> real \<Rightarrow> GameState \<Rightarrow> GameState" where
  "endMatch winnerId now gs =
     gs\<lparr>isMatchActive := False,
        matchEndTime := now,
        winner := or_null winnerId,
        ships := map (\<lambda>(k, s). (k, setInput \<lparr>thrust = False, rotateLeft = False,
                                               rotateRight = False, shoot = False\<rparr> s))
                     (ships gs)\<rparr>"

text \<open>
  \<^verbatim>\<open>handleShipDestroyed\<close> adds \<^verbatim>\<open>GAME_CONSTANTS.GAME.KILL_SCORE\<close> to the killer's
  score and schedules the respawn after \<^verbatim>\<open>GAME_CONSTANTS.GAME.RESPAWN_DELAY\<close>.
\<close>

definition handleShipDestroyed :: "Ship \<Rightarrow> int \<Rightarrow> GameState \<Rightarrow> GameState" where
  "handleShipDestroyed ship killerId gs =
     (let victim = map_get (players gs) (playerId ship);
          killer = map_get (players gs) killerId;
          ps1 = (case victim of
                   Some v \<Rightarrow> map_set (playerId ship) (v\<lparr>deaths := deaths v + 1\<rparr>) (players gs)
                 | None \<Rightarrow> players gs);
          ps2 = (case killer of
                   Some k \<Rightarrow>
                     if killerId \<noteq> playerId ship
                     then map_set killerId
                            (k\<lparr>kills := kills k + 1,
                              score := js_add (score k)
                                         (to_number (map_get GAME_CONSTANTS_GAME ''KILL_SCORE''))\<rparr>)
                            ps1
                     else ps1
                 | None \<Rightarrow> ps1)
      in gs\<lparr>players := ps2,
            scheduled := scheduled gs @
               [(map_get GAME_CONSTANTS_GAME ''RESPAWN_DELAY'', RespawnPlayer (playerId ship))]\<rparr>)"

text \<open>The time-limit branch: the player with the highest score, the first seen kept on ties.\<close>

definition highest_step :: "jsnum \<times> int option \<Rightarrow> Player \<Rightarrow> jsnum \<times> int option" where
  "highest_step acc player =
     (if js_gt (score player) (fst acc) then (score player, Some (pl_id player)) else acc)"

definition checkWinConditions :: "real \<Rightarrow> real \<Rightarrow> GameState \<Rightarrow> GameState" where
  "checkWinConditions currentTime now gs =
     (if \<not> isMatchActive gs then gs
      else case find (\<lambda>player. js_ge (score player) (to_number (scoreLimit gs)))
                  (map_values (players gs)) of
             Some player \<Rightarrow> endMatch (Some (pl_id player)) now gs
           | None \<Rightarrow>
               if js_gt (to_number (timeLimit gs)) (Fin 0)
               then (let matchDuration = currentTime - matchStartTime gs
                     in if js_ge (Fin matchDuration) (to_number (timeLimit gs))
                        then (let (highestScore, winnerId) =
                                    foldl highest_step (Fin (- 1), None) (map_values (players gs))
                              in endMatch (or_null winnerId) now gs)
                        else gs)
               else gs)"

text \<open>
  The engine is configured with a score limit and a time limit, players 0 and 1 join, and
  a match is running since time 0 (the flags that \<^verbatim>\<open>startMatch\<close> sets; the ships play
  no part in what is proved of this state). Both scores are 0.
\<close>

definition two_player_match :: "real \<Rightarrow> real \<Rightarrow> GameState" where
  "two_player_match SCORE_LIMIT TIME_LIMIT =
     (snd (addPlayer 1 ''two'' (snd (addPlayer 0 ''one''
        (configure \<lparr>set_gameMode = None, set_scoreLimit = Some (Fin SCORE_LIMIT),
                    set_timeLimit = Some (Fin TIME_LIMIT)\<rparr> new_GameState)))))
       \<lparr>isRunning := True, isMatchActive := True, matchStartTime := 0\<rparr>"


section \<open>Angles\<close>

text \<open>
  \<^verbatim>\<open>MathUtils.normalizeAngle\<close> is two loops, one after the other, each moving the angle
  by a full turn \<^verbatim>\<open>2 * Math.PI\<close> while it is outside the range. A loop that may run
  for ever is a partial function: \<open>None\<close> is the call that never returns.

  The step \<^verbatim>\<open>angle -= 2 * Math.PI\<close> is a double operation. Doubles of a magnitude above
  \<open>2 ^ 56\<close> are 16 or more apart; a full turn is less than half of that, so the result
  rounds back to the angle itself and the loop makes no progress. Up to \<open>2 ^ 56\<close> the
  doubles are at most 8 apart and the step gives another double (kept exact here). The
  infinities stay what they are, and every comparison with NaN is false.
\<close>

definition TURN_ABSORBED_ABOVE :: real where
  "TURN_ABSORBED_ABOVE = 2 ^ 56"

fun js_add_turn :: "real \<Rightarrow> jsnum \<Rightarrow> jsnum" where
  "js_add_turn turn (Fin a) = (if TURN_ABSORBED_ABOVE < \<bar>a\<bar> then Fin a else Fin (a + turn))"
| "js_add_turn turn PInf = PInf"
| "js_add_turn turn NInf = NInf"
| "js_add_turn turn NaN = NaN"

partial_function (option) normalizeAngle_down :: "jsnum \<Rightarrow> jsnum option" where
  "normalizeAngle_down angle =
     (if js_gt angle (Fin pi) then normalizeAngle_down (js_add_turn (- (2 * pi)) angle)
      else Some angle)"

partial_function (option) normalizeAngle_up :: "jsnum \<Rightarrow> jsnum option" where
  "normalizeAngle_up angle =
     (if js_lt angle (Fin (- pi)) then normalizeAngle_up (js_add_turn (2 * pi) angle)
      else Some angle)"

definition normalizeAngle :: "jsnum \<Rightarrow> jsnum option" where
  "normalizeAngle angle =
     (case normalizeAngle_down angle of None \<Rightarrow> None | Some a \<Rightarrow> normalizeAngle_up a)"

text \<open>
  \<^verbatim>\<open>Ship.updateRotation\<close>: \<open>None\<close> when the normalisation never returns. The rotation
  handed to \<^verbatim>\<open>normalizeAngle\<close> is finite, and a finite angle comes back finite.
\<close>

definition updateRotation :: "real \<Rightarrow> Ship \<Rightarrow> Ship option" where
  "updateRotation deltaTime s =
     (let rotationInput = (0::real);
          rotationInput = (if rotateLeft (input s) then rotationInput - 1 else rotationInput);
          rotationInput = (if rotateRight (input s) then rotationInput + 1 else rotationInput)
      in if rotationInput \<noteq> 0
         then (case normalizeAngle
                      (Fin (rotation s + rotationInput * SHIP_ROTATION_SPEED * (deltaTime / 1000))) of
                 Some (Fin r) \<Rightarrow> Some (s\<lparr>rotation := r\<rparr>)
               | _ \<Rightarrow> None)
         else Some s)"

text \<open>
  \<^verbatim>\<open>GameSync.interpolateAngle\<close>: the local \<^verbatim>\<open>diff\<close> after its two corrections, and
  the value returned.
\<close>

definition interpolateAngle_diff :: "real \<Rightarrow> real \<Rightarrow> real" where
  "interpolateAngle_diff from_rot to_rot =
     (let diff = to_rot - from_rot;
          diff = (if pi < diff then diff - 2 * pi else diff);
          diff = (if diff < - pi then diff + 2 * pi else diff)
      in diff)"

definition interpolateAngle :: "real \<Rightarrow> real \<Rightarrow> real \<Rightarrow> real" where
  "interpolateAngle from_rot to_rot alpha =
     (let diff = to_rot - from_rot;
          diff = (if pi < diff then diff - 2 * pi else diff);
          diff = (if diff < - pi then diff + 2 * pi else diff)
      in from_rot + diff * alpha)"


section \<open>GameSync\<close>

text \<open>The snapshot that a \<^verbatim>\<open>game_state_update\<close> carries, as the message types declare it.\<close>

record ShipData =
  sd_id :: int
  sd_playerId :: int
  sd_position :: Vector2D
  sd_velocity :: Vector2D
  sd_rotation :: real
  sd_health :: real
  sd_isAlive :: bool
  sd_lastShot :: real

record ProjectileData =
  pd_id :: int
  pd_position :: Vector2D
  pd_velocity :: Vector2D
  pd_ownerId :: int
  pd_damage :: real
  pd_isActive :: bool

record PlayerData =
  pld_id :: int
  pld_name :: string
  pld_score :: jsnum
  pld_kills :: int
  pld_deaths :: int

datatype GameStatus = Waiting | Starting | Running | Paused | Ended





text \<open>\<^verbatim>\<open>map.get(k) || 0\<close>: a missing entry and a stored \<open>0\<close> both read as \<open>0\<close>.\<close>

definition get_or_zero :: "('k \<rightharpoonup> int) \<Rightarrow> 'k \<Rightarrow> int" where
  "get_or_zero m k = (case m k of None \<Rightarrow> 0 | Some n \<Rightarrow> if n = 0 then 0 else n)"







section \<open>PeerConnection\<close>

datatype NetworkMessageType =
    PING | PONG | PLAYER_JOINED | PLAYER_LEFT | CONNECTION_ESTABLISHED
  | GAME_STATE_UPDATE | PLAYER_INPUT | GAME_EVENT
  | START_GAME | PAUSE_GAME | RESUME_GAME | END_GAME | RESTART_GAME
  | ERROR | SYNC_REQUEST | SYNC_RESPONSE

datatype ConnectionStatus = DISCONNECTED | CONNECTING | CONNECTED | STATUS_ERROR | RECONNECTING

datatype NetworkErrorType =
    CONNECTION_FAILED | CONNECTION_LOST | MESSAGE_SEND_FAILED | INVALID_MESSAGE
  | PEER_NOT_FOUND | TIMEOUT | WEBRTC_ERROR

text \<open>The fields a message has beyond the envelope; only those the manager builds are spelled out.\<close>

datatype MessageFields =
    NoFields
  | PongFields int
  | EstablishedFields string string int GameMode
  | OtherFields string

record NetworkMessage =
  msg_type :: NetworkMessageType
  msg_timestamp :: int
  msg_senderId :: string
  msg_fields :: MessageFields

record NetworkConfig =
  maxReconnectAttempts :: int
  reconnectDelay :: int
  pingInterval :: int
  timeoutDuration :: int
  maxMessageQueueSize :: int

definition DEFAULT_NETWORK_CONFIG :: NetworkConfig where
  "DEFAULT_NETWORK_CONFIG =
     \<lparr>maxReconnectAttempts = 5, reconnectDelay = 2000, pingInterval = 5000,
      timeoutDuration = 10000, maxMessageQueueSize = 100\<rparr>"

record NetworkError =
  err_type :: NetworkErrorType
  err_message :: string
  err_timestamp :: int

record DataConnection =
  peer :: string
  conn_open :: bool

text \<open>
  The manager's tables, and what it does to the outside: messages handed to an open
  channel (\<open>sent\<close>), errors delivered to the error handlers (\<open>reported\<close>), and the
  reconnection callbacks given to \<^verbatim>\<open>setTimeout\<close> with their delay (\<open>timeouts\<close>).
  \<open>peer_usable\<close> is \<^verbatim>\<open>this.peer && !this.peer.destroyed\<close>. Clock readings are
  the parameter \<open>now\<close>.
\<close>

record PeerConnection =
  peer_usable :: bool
  connections :: "string \<rightharpoonup> DataConnection"
  config :: NetworkConfig
  pc_isHost :: bool
  localPeerId :: string
  connectionStatus :: ConnectionStatus
  reconnectCount :: int
  lastError :: "NetworkError option"
  pingIntervals :: "string \<rightharpoonup> int"
  reconnectAttempts :: "string \<rightharpoonup> int"
  messageQueue :: "string \<rightharpoonup> NetworkMessage list"
  sent :: "(string \<times> NetworkMessage) list"
  reported :: "NetworkError list"
  timeouts :: "(int \<times> string) list"

text \<open>The constructor: no transport endpoint yet, empty tables, status \<open>DISCONNECTED\<close>.\<close>

definition new_PeerConnection :: "NetworkConfig \<Rightarrow> PeerConnection" where
  "new_PeerConnection cfg =
     \<lparr>peer_usable = False, connections = Map.empty, config = cfg, pc_isHost = False,
      localPeerId = [], connectionStatus = DISCONNECTED, reconnectCount = 0,
      lastError = None, pingIntervals = Map.empty, reconnectAttempts = Map.empty,
      messageQueue = Map.empty, sent = [], reported = [], timeouts = []\<rparr>"

definition setConnectionStatus :: "ConnectionStatus \<Rightarrow> PeerConnection \<Rightarrow> PeerConnection" where
  "setConnectionStatus status st =
     (if connectionStatus st \<noteq> status then st\<lparr>connectionStatus := status\<rparr> else st)"

definition handleError :: "NetworkErrorType \<Rightarrow> string \<Rightarrow> int \<Rightarrow> PeerConnection \<Rightarrow> PeerConnection" where
  "handleError etype message now st =
     (let error = \<lparr>err_type = etype, err_message = message, err_timestamp = now\<rparr>
      in st\<lparr>lastError := Some error, reported := reported st @ [error]\<rparr>)"

definition sendToSpecificPeer :: "NetworkMessage \<Rightarrow> string \<Rightarrow> PeerConnection \<Rightarrow> PeerConnection" where
  "sendToSpecificPeer message peerId st =
     (if (case connections st peerId of Some conn \<Rightarrow> conn_open conn | None \<Rightarrow> False)
      then st\<lparr>sent := sent st @ [(peerId, message)]\<rparr>
      else
        (let queue = (case messageQueue st peerId of Some q \<Rightarrow> q | None \<Rightarrow> [])
         in if int (length queue) < maxMessageQueueSize (config st)
            then st\<lparr>messageQueue := (messageQueue st)(peerId \<mapsto> queue @ [message])\<rparr>
            else st))"

definition startPingInterval :: "string \<Rightarrow> PeerConnection \<Rightarrow> PeerConnection" where
  "startPingInterval peerId st =
     st\<lparr>pingIntervals := (pingIntervals st)(peerId \<mapsto> pingInterval (config st))\<rparr>"

definition cleanupPeerConnection :: "string \<Rightarrow> PeerConnection \<Rightarrow> PeerConnection" where
  "cleanupPeerConnection peerId st =
     st\<lparr>pingIntervals := (pingIntervals st)(peerId := None),
        connections := (connections st)(peerId := None),
        messageQueue := (messageQueue st)(peerId := None)\<rparr>"

definition setupConnection :: "DataConnection \<Rightarrow> int \<Rightarrow> PeerConnection \<Rightarrow> PeerConnection" where
  "setupConnection conn now st =
     (let st1 = st\<lparr>connections := (connections st)(peer conn \<mapsto> conn),
                    messageQueue := (messageQueue st)(peer conn \<mapsto> []),
                    reconnectAttempts := (reconnectAttempts st)(peer conn \<mapsto> 0)\<rparr>;
          st2 = startPingInterval (peer conn) st1
      in if pc_isHost st2
         then sendToSpecificPeer
                \<lparr>msg_type = CONNECTION_ESTABLISHED, msg_timestamp = now,
                 msg_senderId = localPeerId st2,
                 msg_fields = EstablishedFields (localPeerId st2) (peer conn) 2 Deathmatch\<rparr>
                (peer conn) st2
         else st2)"

definition handleOutgoingConnection ::
  "DataConnection \<Rightarrow> string \<Rightarrow> int \<Rightarrow> PeerConnection \<Rightarrow> PeerConnection" where
  "handleOutgoingConnection conn peerId now st = setupConnection conn now st"

definition attemptReconnection :: "string \<Rightarrow> int \<Rightarrow> PeerConnection \<Rightarrow> PeerConnection" where
  "attemptReconnection peerId now st =
     (let attempts = get_or_zero (reconnectAttempts st) peerId
      in if attempts < maxReconnectAttempts (config st)
         then st\<lparr>reconnectAttempts := (reconnectAttempts st)(peerId \<mapsto> attempts + 1),
                 reconnectCount := reconnectCount st + 1,
                 timeouts := timeouts st @ [(reconnectDelay (config st) * (attempts + 1), peerId)]\<rparr>
         else handleError CONNECTION_FAILED (''Failed to reconnect to peer '' @ peerId) now st)"

text \<open>
  The callback that \<^verbatim>\<open>attemptReconnection\<close> schedules. \<open>conn\<close> is the channel that
  the transport's \<^verbatim>\<open>connect(peerId)\<close> returns.
\<close>

definition reconnectCallback :: "DataConnection \<Rightarrow> string \<Rightarrow> int \<Rightarrow> PeerConnection \<Rightarrow> PeerConnection" where
  "reconnectCallback conn peerId now st =
     (if peer_usable st then handleOutgoingConnection conn peerId now st else st)"

definition handleConnectionClosed :: "string \<Rightarrow> int \<Rightarrow> PeerConnection \<Rightarrow> PeerConnection" where
  "handleConnectionClosed peerId now st =
     (let st1 = cleanupPeerConnection peerId st
      in if connectionStatus st1 = CONNECTED then attemptReconnection peerId now st1 else st1)"

text \<open>
  \<^verbatim>\<open>connectToHost\<close>, by the events that drive it: the call itself creates the
  endpoint; the endpoint's \<^verbatim>\<open>open\<close> event brings the local id and opens a channel to
  the host (\<open>conn\<close>, as the transport returns it); the channel's \<^verbatim>\<open>open\<close> event marks
  it open and sets the status to \<open>CONNECTED\<close>.
\<close>

definition connectToHost :: "PeerConnection \<Rightarrow> PeerConnection" where
  "connectToHost st = (setConnectionStatus CONNECTING (st\<lparr>pc_isHost := False\<rparr>))\<lparr>peer_usable := True\<rparr>"

definition connectToHost_peer_open ::
  "string \<Rightarrow> DataConnection \<Rightarrow> string \<Rightarrow> int \<Rightarrow> PeerConnection \<Rightarrow> PeerConnection" where
  "connectToHost_peer_open localId conn hostId now st =
     handleOutgoingConnection conn hostId now (st\<lparr>localPeerId := localId\<rparr>)"

definition connectToHost_conn_open :: "string \<Rightarrow> PeerConnection \<Rightarrow> PeerConnection" where
  "connectToHost_conn_open hostId st =
     setConnectionStatus CONNECTED
       (st\<lparr>connections :=
             (case connections st hostId of
                Some conn \<Rightarrow> (connections st)(hostId \<mapsto> conn\<lparr>conn_open := True\<rparr>)
              | None \<Rightarrow> connections st)\<rparr>)"

text \<open>
  One failed reconnection attempt: the scheduled callback runs and opens a channel to the
  peer, the channel never opens, and its \<^verbatim>\<open>close\<close> event arrives.
\<close>

definition failedAttempt :: "string \<Rightarrow> int \<Rightarrow> PeerConnection \<Rightarrow> PeerConnection" where
  "failedAttempt peerId now st =
     handleConnectionClosed peerId now
       (reconnectCallback \<lparr>peer = peerId, conn_open = False\<rparr> peerId now st)"

text \<open>
  A client with the default configuration, connected to its host, loses the channel and
  then sees \<open>n\<close> reconnection attempts fail, one after the other.
\<close>

definition connected_client :: PeerConnection where
  "connected_client =
     connectToHost_conn_open ''host''
       (connectToHost_peer_open ''client'' \<lparr>peer = ''host'', conn_open = False\<rparr> ''host'' 0
          (connectToHost (new_PeerConnection DEFAULT_NETWORK_CONFIG)))"

fun failedAttempts :: "nat \<Rightarrow> string \<Rightarrow> int \<Rightarrow> PeerConnection \<Rightarrow> PeerConnection" where
  "failedAttempts 0 peerId now st = st"
| "failedAttempts (Suc n) peerId now st = failedAttempt peerId now (failedAttempts n peerId now st)"

text \<open>Messages sent one after the other to the same peer.\<close>

definition sendAllTo :: "string \<Rightarrow> NetworkMessage list \<Rightarrow> PeerConnection \<Rightarrow> PeerConnection" where
  "sendAllTo peerId messages st = foldl (\<lambda>s m. sendToSpecificPeer m peerId s) st messages"

definition queueOf :: "PeerConnection \<Rightarrow> string \<Rightarrow> NetworkMessage list" where
  "queueOf st peerId = (case messageQueue st peerId of Some q \<Rightarrow> q | None \<Rightarrow> [])"


section \<open>Facts about the number model and the maps\<close>

lemma JS_OVERFLOW_gt_one: "1 < JS_OVERFLOW"
  unfolding JS_OVERFLOW_def by (rule one_less_power) simp_all

lemma js_of_real_small: "\<bar>r\<bar> \<le> 1 \<Longrightarrow> js_of_real r = Fin r"
  using JS_OVERFLOW_gt_one by (auto simp: js_of_real_def)

lemma js_of_real_nonneg: "0 \<le> r \<Longrightarrow> js_of_real r = PInf \<or> js_of_real r = Fin r"
  using JS_OVERFLOW_gt_one by (simp add: js_of_real_def)

lemma js_of_real_not_NaN: "js_of_real r \<noteq> NaN"
  by (simp add: js_of_real_def)

lemma is_finite_iff: "is_finite n \<longleftrightarrow> (\<exists>r. n = Fin r)"
  by (cases n) auto

lemma map_get_map_set: "map_get (map_set k v m) k' = (if k' = k then Some v else map_get m k')"
  by (induction m) auto


section \<open>Sequence monotonicity\<close>





section \<open>Ownership exclusion\<close>

text \<open>
  C2. \<^verbatim>\<open>checkShipCollision\<close> is false whenever the ship belongs to the projectile's
  owner, or the ship is dead, or the projectile is inactive, whatever the two positions
  and radii are.
\<close>

theorem checkShipCollision_excluded:
  assumes "playerId ship = ownerId p \<or> \<not> isAlive ship \<or> \<not> isActive p"
  shows "\<not> checkShipCollision ship p"
  using assms by (auto simp: checkShipCollision_def)

text \<open>
  A live ship of player 0 and an active projectile of player 0 at the very same point:
  no collision. The same projectile does hit the ship of player 1 at that point.
\<close>

theorem checkShipCollision_excluded_witness:
  "(playerId (new_Ship 0 \<lparr>vec_x = Fin 200, vec_y = Fin 300\<rparr>)
      = ownerId (new_Projectile 2000 0 0 \<lparr>vec_x = Fin 200, vec_y = Fin 300\<rparr>
                   \<lparr>vec_x = Fin 1, vec_y = Fin 0\<rparr> ''#00ff88'')
    \<or> \<not> isAlive (new_Ship 0 \<lparr>vec_x = Fin 200, vec_y = Fin 300\<rparr>)
    \<or> \<not> isActive (new_Projectile 2000 0 0 \<lparr>vec_x = Fin 200, vec_y = Fin 300\<rparr>
                   \<lparr>vec_x = Fin 1, vec_y = Fin 0\<rparr> ''#00ff88''))
   \<and> \<not> checkShipCollision (new_Ship 0 \<lparr>vec_x = Fin 200, vec_y = Fin 300\<rparr>)
         (new_Projectile 2000 0 0 \<lparr>vec_x = Fin 200, vec_y = Fin 300\<rparr>
            \<lparr>vec_x = Fin 1, vec_y = Fin 0\<rparr> ''#00ff88'')"
  using checkShipCollision_excluded
          [of "new_Ship 0 \<lparr>vec_x = Fin 200, vec_y = Fin 300\<rparr>"
              "new_Projectile 2000 0 0 \<lparr>vec_x = Fin 200, vec_y = Fin 300\<rparr>
                 \<lparr>vec_x = Fin 1, vec_y = Fin 0\<rparr> ''#00ff88''"]
  by (simp add: new_Ship_def new_Projectile_def Let_def)

lemma foreign_projectile_hits:
  "checkShipCollision (new_Ship 1 \<lparr>vec_x = Fin 200, vec_y = Fin 300\<rparr>)
     (new_Projectile 2000 0 0 \<lparr>vec_x = Fin 200, vec_y = Fin 300\<rparr>
        \<lparr>vec_x = Fin 1, vec_y = Fin 0\<rparr> ''#00ff88'')"
proof -
  have big: "\<not> JS_OVERFLOW \<le> 20" 
    unfolding JS_OVERFLOW_def not_le
    by (rule less_le_trans [of _ "2 ^ 5"]) (simp, rule power_increasing, simp_all)
  then show ?thesis
    using JS_OVERFLOW_gt_one
    by (simp add: checkShipCollision_def checkCollision_def new_Ship_def new_Projectile_def
          Let_def clone_def distanceTo_def js_of_real_small js_of_real_def
          SHIP_COLLISION_RADIUS_def PROJECTILE_COLLISION_RADIUS_def)
qed


section \<open>Lethal damage and kill resolution\<close>

lemma takeDamage_lethal:
  assumes "isAlive s" and "\<not> isInvulnerable t s" and "health s \<le> d"
  shows "takeDamage d t s = (True, die (s\<lparr>health := 0\<rparr>))"
  using assms by (simp add: takeDamage_def Let_def)

lemma takeDamage_dead: "\<not> isAlive s \<Longrightarrow> takeDamage d t s = (False, s)"
  by (simp add: takeDamage_def)

lemma KILL_SCORE_undefined: "to_number (map_get GAME_CONSTANTS_GAME ''KILL_SCORE'') = NaN"
  by (simp add: GAME_CONSTANTS_GAME_def to_number_def)

lemma js_add_NaN: "js_add n NaN = NaN"
  by (cases n) simp_all

lemma handleShipDestroyed_players:
  "map_get (players (handleShipDestroyed ship killerId gs)) pid =
     (if pid = playerId ship
      then map_option (\<lambda>v. v\<lparr>deaths := deaths v + 1\<rparr>) (map_get (players gs) pid)
      else if pid = killerId
      then map_option (\<lambda>k. k\<lparr>kills := kills k + 1, score := NaN\<rparr>) (map_get (players gs) pid)
      else map_get (players gs) pid)"
  by (auto simp: handleShipDestroyed_def Let_def map_get_map_set KILL_SCORE_undefined js_add_NaN
           split: option.splits)

text \<open>
  What holds for every lethal hit: the kill is reported once, the victim's record gains
  one death, the record of a killer other than the victim gains one kill, a self-kill
  gains the death only, and every other record stays as it is.
\<close>

lemma lethal_damage_parts:
  assumes "isAlive s" and "\<not> isInvulnerable t s" and "health s \<le> d"
  shows "fst (takeDamage d t s) = True
       \<and> health (snd (takeDamage d t s)) = 0
       \<and> isAlive (snd (takeDamage d t s)) = False
       \<and> takeDamage d' t' (snd (takeDamage d t s)) = (False, snd (takeDamage d t s))
       \<and> map_get (players (handleShipDestroyed (snd (takeDamage d t s)) killerId gs)) pid =
           (if pid = playerId s
            then map_option (\<lambda>v. v\<lparr>deaths := deaths v + 1\<rparr>) (map_get (players gs) pid)
            else if pid = killerId
            then map_option (\<lambda>k. k\<lparr>kills := kills k + 1, score := NaN\<rparr>)
                   (map_get (players gs) pid)
            else map_get (players gs) pid)"
  using assms
  by (simp add: takeDamage_lethal takeDamage_dead die_def handleShipDestroyed_players)

lemma two_player_match_players:
  "players (two_player_match L T) =
     [(0, \<lparr>pl_id = 0, pl_name = ''one'', score = Fin 0, kills = 0, deaths = 0, isConnected = True\<rparr>),
      (1, \<lparr>pl_id = 1, pl_name = ''two'', score = Fin 0, kills = 0, deaths = 0, isConnected = True\<rparr>)]"
  by (simp add: two_player_match_def addPlayer_def new_GameState_def configure_def Let_def
        GAME_CONSTANTS_GAME_def to_number_def js_ge_def)

lemma two_player_match_settings:
  "scoreLimit (two_player_match L T) = (if L = 0 then None else Some (Fin L))"
  "timeLimit (two_player_match L T) = (if T = 0 then None else Some (Fin T))"
  "isMatchActive (two_player_match L T)"
  "matchStartTime (two_player_match L T) = 0"
  by (simp_all add: two_player_match_def addPlayer_def new_GameState_def configure_def Let_def
        GAME_CONSTANTS_GAME_def to_number_def js_ge_def)

text \<open>
  In a match of players 0 and 1, the ship of player 1 is down to 25 health and is hit for
  25: \<^verbatim>\<open>takeDamage\<close> returns true and leaves the ship dead with health 0.
\<close>

lemma lethal_hit:
  "takeDamage 25 5000 ((new_Ship 1 \<lparr>vec_x = Fin 600, vec_y = Fin 300\<rparr>)\<lparr>health := 25\<rparr>)
     = (True, die ((new_Ship 1 \<lparr>vec_x = Fin 600, vec_y = Fin 300\<rparr>)\<lparr>health := 0\<rparr>))"
  by (simp add: takeDamage_def isInvulnerable_def new_Ship_def Let_def)

text \<open>
  C3. The claim has the killer's score grow by the configured kill score. The ship of
  player 1 has been destroyed by a projectile of player 0, as above, and
  \<^verbatim>\<open>handleShipDestroyed\<close> resolves the kill: the victim's record gains one death and
  the killer's one kill. But the constants table has no \<^verbatim>\<open>KILL_SCORE\<close>: the killer's
  score, 0 before, becomes \<^verbatim>\<open>0 + undefined\<close>, which is NaN.
\<close>

theorem kill_score_not_a_number:
  "map_option score (map_get (players (two_player_match 5 300000)) 0) = Some (Fin 0)
   \<and> map_option deaths
        (map_get (players (handleShipDestroyed
           (die ((new_Ship 1 \<lparr>vec_x = Fin 600, vec_y = Fin 300\<rparr>)\<lparr>health := 0\<rparr>))
           0 (two_player_match 5 300000))) 1) = Some 1
   \<and> map_option kills
        (map_get (players (handleShipDestroyed
           (die ((new_Ship 1 \<lparr>vec_x = Fin 600, vec_y = Fin 300\<rparr>)\<lparr>health := 0\<rparr>))
           0 (two_player_match 5 300000))) 0) = Some 1
   \<and> map_option score
        (map_get (players (handleShipDestroyed
           (die ((new_Ship 1 \<lparr>vec_x = Fin 600, vec_y = Fin 300\<rparr>)\<lparr>health := 0\<rparr>))
           0 (two_player_match 5 300000))) 0) = Some NaN"
  by (simp add: handleShipDestroyed_players two_player_match_players die_def new_Ship_def)

text \<open>A score that is NaN is never at or above a score limit: the match goes on.\<close>

lemma kills_never_reach_the_score_limit:
  "isMatchActive (checkWinConditions 1000 1000
     (handleShipDestroyed (new_Ship 1 \<lparr>vec_x = Fin 600, vec_y = Fin 300\<rparr>) 0
        (two_player_match 1 300000)))"
  by (simp add: checkWinConditions_def handleShipDestroyed_def two_player_match_players
        two_player_match_settings GAME_CONSTANTS_GAME_def new_Ship_def Let_def map_values_def
        to_number_def js_ge_def js_gt_def)


section \<open>Win conditions\<close>

lemma winner_endMatch: "winner (endMatch w now gs) = or_null w"
  and isMatchActive_endMatch: "isMatchActive (endMatch w now gs) = False"
  by (simp_all add: endMatch_def)

lemma checkWinConditions_inactive: "\<not> isMatchActive gs \<Longrightarrow> checkWinConditions ct now gs = gs"
  by (simp add: checkWinConditions_def)

lemma checkWinConditions_score_limit:
  assumes "isMatchActive gs"
    and "find (\<lambda>player. js_ge (score player) (to_number (scoreLimit gs))) (map_values (players gs)) = Some p"
  shows "checkWinConditions ct now gs = endMatch (Some (pl_id p)) now gs"
  using assms by (simp add: checkWinConditions_def)

lemma checkWinConditions_score_winner:
  assumes "isMatchActive gs"
    and "find (\<lambda>player. js_ge (score player) (to_number (scoreLimit gs))) (map_values (players gs)) = Some p"
  shows "winner (checkWinConditions ct now gs) = (if pl_id p = 0 then None else Some (pl_id p))"
    and "isMatchActive (checkWinConditions ct now gs) = False"
    and "checkWinConditions ct' now' (checkWinConditions ct now gs) = checkWinConditions ct now gs"
  using assms
  by (simp_all add: checkWinConditions_score_limit winner_endMatch isMatchActive_endMatch
        checkWinConditions_inactive or_null_def)

text \<open>
  At the time limit, players 1 and 2 both have score 0: the one seen first is recorded.
\<close>

lemma time_limit_tie_first_seen:
  "winner (checkWinConditions 300000 300000
     ((snd (addPlayer 2 ''two'' (snd (addPlayer 1 ''one''
         (configure \<lparr>set_gameMode = None, set_scoreLimit = Some (Fin 5),
                     set_timeLimit = Some (Fin 300000)\<rparr> new_GameState)))))
        \<lparr>isRunning := True, isMatchActive := True, matchStartTime := 0\<rparr>))
     = Some 1"
  by (simp add: checkWinConditions_def addPlayer_def new_GameState_def configure_def
        GAME_CONSTANTS_GAME_def map_values_def Let_def endMatch_def or_null_def highest_step_def
        to_number_def js_ge_def js_gt_def)

text \<open>
  C4. The claim has the id of the player who reaches the score limit, or who leads when
  the time is up, recorded as winner, for every player id including 0. Players 0 and 1
  are in a match with a time limit of 300000, both with score 0. When the time is up,
  \<^verbatim>\<open>checkWinConditions\<close> finds player 0, the first seen, and ends the match, but no
  winner is recorded: \<^verbatim>\<open>winnerId || undefined\<close> and \<^verbatim>\<open>winnerId || null\<close> take the id
  0 for a missing one. \<^verbatim>\<open>endMatch(0)\<close>, which is what the score-limit branch calls for
  player 0, records no winner either; \<^verbatim>\<open>endMatch(1)\<close> records player 1.
\<close>

theorem winner_player_zero_lost:
  "map_option score (map_get (players (two_player_match 5 300000)) 0) = Some (Fin 0)
   \<and> map_option score (map_get (players (two_player_match 5 300000)) 1) = Some (Fin 0)
   \<and> isMatchActive (checkWinConditions 300000 300000 (two_player_match 5 300000)) = False
   \<and> winner (checkWinConditions 300000 300000 (two_player_match 5 300000)) = None
   \<and> winner (endMatch (Some 0) 1000 (two_player_match 5 300000)) = None
   \<and> winner (endMatch (Some 1) 1000 (two_player_match 5 300000)) = Some 1"
  by (simp add: checkWinConditions_def two_player_match_players two_player_match_settings
        Let_def map_values_def endMatch_def or_null_def highest_step_def to_number_def
        js_ge_def js_gt_def)


section \<open>Reconnection\<close>

lemma connected_client_simps:
  "connectionStatus connected_client = CONNECTED"
  "peer_usable connected_client"
  "pc_isHost connected_client = False"
  "config connected_client = DEFAULT_NETWORK_CONFIG"
  "reconnectAttempts connected_client ''host'' = Some 0"
  "reported connected_client = []"
  "timeouts connected_client = []"
  "connections connected_client ''host'' = Some \<lparr>peer = ''host'', conn_open = True\<rparr>"
  by (simp_all add: connected_client_def connectToHost_conn_open_def connectToHost_peer_open_def
        connectToHost_def new_PeerConnection_def setConnectionStatus_def
        handleOutgoingConnection_def setupConnection_def startPingInterval_def Let_def)

text \<open>What \<^verbatim>\<open>attemptReconnection\<close> does with the counter it finds.\<close>

lemma attemptReconnection_below_cap:
  assumes "reconnectAttempts st p = Some n" and "n < maxReconnectAttempts (config st)"
  shows "timeouts (attemptReconnection p now st) = timeouts st @ [(reconnectDelay (config st) * (n + 1), p)]"
    and "reconnectAttempts (attemptReconnection p now st) p = Some (n + 1)"
    and "reported (attemptReconnection p now st) = reported st"
  using assms by (simp_all add: attemptReconnection_def get_or_zero_def Let_def)

lemma attemptReconnection_at_cap:
  assumes "reconnectAttempts st p = Some n" and "maxReconnectAttempts (config st) \<le> n"
  shows "timeouts (attemptReconnection p now st) = timeouts st"
    and "map err_type (reported (attemptReconnection p now st))
           = map err_type (reported st) @ [CONNECTION_FAILED]"
  using assms by (auto simp: attemptReconnection_def get_or_zero_def Let_def handleError_def)

lemma closed_then_scheduled:
  assumes "connectionStatus st = CONNECTED" "reconnectAttempts st p = Some 0"
    "0 < maxReconnectAttempts (config st)"
  shows "handleConnectionClosed p now st =
           (cleanupPeerConnection p st)
             \<lparr>reconnectAttempts := (reconnectAttempts st)(p \<mapsto> 1),
              reconnectCount := reconnectCount st + 1,
              timeouts := timeouts st @ [(reconnectDelay (config st), p)]\<rparr>"
  using assms
  by (simp add: handleConnectionClosed_def cleanupPeerConnection_def attemptReconnection_def
        get_or_zero_def Let_def)

lemma callback_resets:
  assumes "peer_usable st" "\<not> pc_isHost st"
  shows "reconnectAttempts (reconnectCallback \<lparr>peer = p, conn_open = False\<rparr> p now st) p = Some 0"
    and "connectionStatus (reconnectCallback \<lparr>peer = p, conn_open = False\<rparr> p now st) = connectionStatus st"
    and "config (reconnectCallback \<lparr>peer = p, conn_open = False\<rparr> p now st) = config st"
    and "timeouts (reconnectCallback \<lparr>peer = p, conn_open = False\<rparr> p now st) = timeouts st"
    and "reported (reconnectCallback \<lparr>peer = p, conn_open = False\<rparr> p now st) = reported st"
    and "peer_usable (reconnectCallback \<lparr>peer = p, conn_open = False\<rparr> p now st)"
    and "\<not> pc_isHost (reconnectCallback \<lparr>peer = p, conn_open = False\<rparr> p now st)"
  using assms
  by (simp_all add: reconnectCallback_def handleOutgoingConnection_def setupConnection_def
        startPingInterval_def Let_def)

lemma failedAttempt_step:
  assumes "peer_usable st" "\<not> pc_isHost st" "connectionStatus st = CONNECTED"
    "0 < maxReconnectAttempts (config st)"
  shows "timeouts (failedAttempt p now st) = timeouts st @ [(reconnectDelay (config st), p)]"
    and "reported (failedAttempt p now st) = reported st"
    and "peer_usable (failedAttempt p now st)"
    and "\<not> pc_isHost (failedAttempt p now st)"
    and "connectionStatus (failedAttempt p now st) = CONNECTED"
    and "config (failedAttempt p now st) = config st"
  unfolding failedAttempt_def
  using assms callback_resets [OF assms(1,2), of p now]
  by (simp_all add: closed_then_scheduled cleanupPeerConnection_def)

text \<open>However many attempts fail, each one is followed by another, and no error is reported.\<close>

lemma failedAttempts_inv:
  assumes "peer_usable st" "\<not> pc_isHost st" "connectionStatus st = CONNECTED"
    "0 < maxReconnectAttempts (config st)"
  shows "timeouts (failedAttempts n p now st) = timeouts st @ replicate n (reconnectDelay (config st), p)
       \<and> reported (failedAttempts n p now st) = reported st
       \<and> peer_usable (failedAttempts n p now st)
       \<and> \<not> pc_isHost (failedAttempts n p now st)
       \<and> connectionStatus (failedAttempts n p now st) = CONNECTED
       \<and> config (failedAttempts n p now st) = config st"
proof (induction n)
  case 0
  show ?case using assms by simp
next
  case (Suc n)
  then have a: "peer_usable (failedAttempts n p now st)"
    and b: "\<not> pc_isHost (failedAttempts n p now st)"
    and c: "connectionStatus (failedAttempts n p now st) = CONNECTED"
    and d: "0 < maxReconnectAttempts (config (failedAttempts n p now st))"
    using assms by simp_all
  from failedAttempt_step [OF a b c d, of p now] Suc
  show ?case by (simp add: replicate_append_same)
qed

text \<open>
  C5. The claim has the sixth attempt refused and \<open>CONNECTION_FAILED\<close> reported after
  five failed attempts, with delays \<open>reconnectDelay \<times> attemptNumber\<close>. Every attempt
  runs through \<^verbatim>\<open>setupConnection\<close>, which stores 0 as the peer's attempt counter, so
  each failure finds the counter at 0: after the loss of the channel and five failed
  attempts, six callbacks have been scheduled, each with the delay 2000, and no error
  has been reported.
\<close>

theorem reconnect_cap_never_reached:
  "map fst (timeouts (failedAttempts 5 ''host'' 0 (handleConnectionClosed ''host'' 0 connected_client)))
     = [2000, 2000, 2000, 2000, 2000, 2000]
   \<and> reported (failedAttempts 5 ''host'' 0 (handleConnectionClosed ''host'' 0 connected_client)) = []"
proof -
  let ?st = "handleConnectionClosed ''host'' 0 connected_client"
  have st: "?st = (cleanupPeerConnection ''host'' connected_client)
             \<lparr>reconnectAttempts := (reconnectAttempts connected_client)(''host'' \<mapsto> 1),
              reconnectCount := reconnectCount connected_client + 1,
              timeouts := timeouts connected_client @ [(reconnectDelay (config connected_client), ''host'')]\<rparr>"
    by (rule closed_then_scheduled) (simp_all add: connected_client_simps DEFAULT_NETWORK_CONFIG_def)
  have p: "peer_usable ?st" "\<not> pc_isHost ?st" "connectionStatus ?st = CONNECTED"
    "0 < maxReconnectAttempts (config ?st)" "timeouts ?st = [(2000, ''host'')]" "reported ?st = []"
    "reconnectDelay (config ?st) = 2000"
    unfolding st
    by (simp_all add: cleanupPeerConnection_def connected_client_simps DEFAULT_NETWORK_CONFIG_def)
  from failedAttempts_inv [OF p(1-4), of 5 "''host''" 0] p(5-7)
  show ?thesis by (simp add: eval_nat_numeral)
qed


section \<open>Bounded outbound queue\<close>

lemma sendToSpecificPeer_keeps:
  "connections (sendToSpecificPeer m p st) = connections st"
  "config (sendToSpecificPeer m p st) = config st"
  by (simp_all add: sendToSpecificPeer_def Let_def)

lemma sendToSpecificPeer_queue:
  assumes "\<not> (case connections st p of Some conn \<Rightarrow> conn_open conn | None \<Rightarrow> False)"
  shows "queueOf (sendToSpecificPeer m p st) p =
           (if int (length (queueOf st p)) < maxMessageQueueSize (config st)
            then queueOf st p @ [m] else queueOf st p)"
  using assms by (simp add: sendToSpecificPeer_def queueOf_def Let_def)

lemma sendAllTo_queue:
  assumes "\<not> (case connections st p of Some conn \<Rightarrow> conn_open conn | None \<Rightarrow> False)"
  shows "queueOf (sendAllTo p ms st) p =
           queueOf st p @ take (nat (maxMessageQueueSize (config st)) - length (queueOf st p)) ms"
  using assms
proof (induction ms arbitrary: st)
  case Nil
  show ?case by (simp add: sendAllTo_def)
next
  case (Cons m ms)
  let ?st1 = "sendToSpecificPeer m p st"
  have closed1: "\<not> (case connections ?st1 p of Some conn \<Rightarrow> conn_open conn | None \<Rightarrow> False)"
    using Cons.prems by (simp add: sendToSpecificPeer_keeps)
  have unfold: "sendAllTo p (m # ms) st = sendAllTo p ms ?st1"
    by (simp add: sendAllTo_def)
  show ?case
  proof (cases "int (length (queueOf st p)) < maxMessageQueueSize (config st)")
    case True
    then have "nat (maxMessageQueueSize (config st)) - length (queueOf st p)
                 = Suc (nat (maxMessageQueueSize (config st)) - Suc (length (queueOf st p)))"
      by linarith
    then show ?thesis
      using Cons.IH [OF closed1] True
      by (simp add: unfold sendToSpecificPeer_queue [OF Cons.prems] sendToSpecificPeer_keeps)
  next
    case False
    then have "nat (maxMessageQueueSize (config st)) - length (queueOf st p) = 0"
      by linarith
    then show ?thesis
      using Cons.IH [OF closed1] False
      by (simp add: unfold sendToSpecificPeer_queue [OF Cons.prems] sendToSpecificPeer_keeps)
  qed
qed

text \<open>
  C6. For a peer whose channel is not open, \<^verbatim>\<open>sendToSpecificPeer\<close> appends the message
  to the peer's queue when the queue holds fewer than \<open>maxMessageQueueSize\<close> messages
  and drops it otherwise. So a queue within the bound stays within it, the messages kept
  are the oldest, in order, and 150 messages sent to an empty queue with the bound 100
  leave exactly the first 100.
\<close>

theorem queue_bound:
  assumes "\<not> (case connections st p of Some conn \<Rightarrow> conn_open conn | None \<Rightarrow> False)"
  shows "queueOf (sendToSpecificPeer m p st) p =
           (if int (length (queueOf st p)) < maxMessageQueueSize (config st)
            then queueOf st p @ [m] else queueOf st p)
       \<and> (int (length (queueOf st p)) \<le> maxMessageQueueSize (config st) \<longrightarrow>
            int (length (queueOf (sendAllTo p ms st) p)) \<le> maxMessageQueueSize (config st))
       \<and> queueOf (sendAllTo p ms st) p =
           queueOf st p @ take (nat (maxMessageQueueSize (config st)) - length (queueOf st p)) ms
       \<and> (maxMessageQueueSize (config st) = 100 \<and> queueOf st p = [] \<and> length ms = 150 \<longrightarrow>
            queueOf (sendAllTo p ms st) p = take 100 ms
          \<and> length (queueOf (sendAllTo p ms st) p) = 100)"
  using sendToSpecificPeer_queue [OF assms, of m] sendAllTo_queue [OF assms, of ms]
  by auto

text \<open>
  A manager with the default configuration and no channel to the host: of 150 input
  messages, the first 100 are queued.
\<close>

theorem queue_bound_witness:
  "\<not> (case connections (new_PeerConnection DEFAULT_NETWORK_CONFIG) ''host'' of
         Some conn \<Rightarrow> conn_open conn | None \<Rightarrow> False)
   \<and> maxMessageQueueSize (config (new_PeerConnection DEFAULT_NETWORK_CONFIG)) = 100
   \<and> queueOf (new_PeerConnection DEFAULT_NETWORK_CONFIG) ''host'' = []
   \<and> length (map (\<lambda>i. \<lparr>msg_type = PLAYER_INPUT, msg_timestamp = int i,
                         msg_senderId = ''client'', msg_fields = NoFields\<rparr>) [0..<150]) = 150
   \<and> queueOf (sendAllTo ''host''
        (map (\<lambda>i. \<lparr>msg_type = PLAYER_INPUT, msg_timestamp = int i,
                    msg_senderId = ''client'', msg_fields = NoFields\<rparr>) [0..<150])
        (new_PeerConnection DEFAULT_NETWORK_CONFIG)) ''host''
      = take 100 (map (\<lambda>i. \<lparr>msg_type = PLAYER_INPUT, msg_timestamp = int i,
                         msg_senderId = ''client'', msg_fields = NoFields\<rparr>) [0..<150])
   \<and> length (queueOf (sendAllTo ''host''
        (map (\<lambda>i. \<lparr>msg_type = PLAYER_INPUT, msg_timestamp = int i,
                    msg_senderId = ''client'', msg_fields = NoFields\<rparr>) [0..<150])
        (new_PeerConnection DEFAULT_NETWORK_CONFIG)) ''host'') = 100"
proof -
  have q: "queueOf (new_PeerConnection DEFAULT_NETWORK_CONFIG) ''host'' = []"
    and c: "maxMessageQueueSize (config (new_PeerConnection DEFAULT_NETWORK_CONFIG)) = 100"
    and o: "\<not> (case connections (new_PeerConnection DEFAULT_NETWORK_CONFIG) ''host'' of
                 Some conn \<Rightarrow> conn_open conn | None \<Rightarrow> False)"
    by (simp_all add: new_PeerConnection_def DEFAULT_NETWORK_CONFIG_def queueOf_def)
  have l: "length (map (\<lambda>i. \<lparr>msg_type = PLAYER_INPUT, msg_timestamp = int i,
                         msg_senderId = ''client'', msg_fields = NoFields\<rparr>) [0..<150]) = 150"
    by simp
  from queue_bound [OF o, of _ "map (\<lambda>i. \<lparr>msg_type = PLAYER_INPUT, msg_timestamp = int i,
                         msg_senderId = ''client'', msg_fields = NoFields\<rparr>) [0..<150]"] q c l o
  show ?thesis by blast
qed


section \<open>Angle normalisation\<close>

lemma TURN_ABSORBED_ABOVE_gt: "8 < TURN_ABSORBED_ABOVE"
proof -
  have "(2::real) ^ 4 \<le> 2 ^ 56" by (rule power_increasing) simp_all
  then show ?thesis unfolding TURN_ABSORBED_ABOVE_def by simp
qed

text \<open>Within the bound each loop returns, with a finite angle.\<close>

lemma normalizeAngle_down_steps:
  "a \<le> TURN_ABSORBED_ABOVE \<Longrightarrow> a \<le> pi + 2 * pi * real n \<Longrightarrow>
     \<exists>r. normalizeAngle_down (Fin a) = Some (Fin r) \<and> ((r = a \<and> a \<le> pi) \<or> (- pi < r \<and> r \<le> pi))"
proof (induction n arbitrary: a)
  case 0
  then have "\<not> pi < a" by simp
  then show ?case by (subst normalizeAngle_down.simps) (simp add: js_gt_def)
next
  case (Suc n)
  show ?case
  proof (cases "pi < a")
    case False
    then show ?thesis by (subst normalizeAngle_down.simps) (simp add: js_gt_def)
  next
    case True
    have pos: "0 < a" using True pi_gt_zero by linarith
    have na: "\<not> TURN_ABSORBED_ABOVE < \<bar>a\<bar>" using Suc.prems(1) pos by simp
    have b1: "a - 2 * pi \<le> TURN_ABSORBED_ABOVE" using Suc.prems(1) pi_gt_zero by linarith
    have b2: "a - 2 * pi \<le> pi + 2 * pi * real n" using Suc.prems(2) by (simp add: algebra_simps)
    from Suc.IH [OF b1 b2] obtain r where
      r: "normalizeAngle_down (Fin (a - 2 * pi)) = Some (Fin r)"
      and c: "(r = a - 2 * pi \<and> a - 2 * pi \<le> pi) \<or> (- pi < r \<and> r \<le> pi)" by blast
    from c True have "- pi < r \<and> r \<le> pi" by auto
    moreover have "normalizeAngle_down (Fin a) = Some (Fin r)"
      using True na r by (subst normalizeAngle_down.simps) (simp add: js_gt_def)
    ultimately show ?thesis by blast
  qed
qed

lemma normalizeAngle_down_returns:
  assumes "a \<le> TURN_ABSORBED_ABOVE"
  shows "\<exists>r. normalizeAngle_down (Fin a) = Some (Fin r) \<and> ((r = a \<and> a \<le> pi) \<or> (- pi < r \<and> r \<le> pi))"
proof -
  obtain n :: nat where n: "a / (2 * pi) \<le> real n" using real_arch_simple by blast
  have "a \<le> 2 * pi * real n" using n pi_gt_zero by (simp add: field_simps)
  then have "a \<le> pi + 2 * pi * real n" using pi_gt_zero by linarith
  from normalizeAngle_down_steps [OF assms this] show ?thesis .
qed

lemma normalizeAngle_up_steps:
  "- TURN_ABSORBED_ABOVE \<le> a \<Longrightarrow> - pi - 2 * pi * real n \<le> a \<Longrightarrow>
     \<exists>r. normalizeAngle_up (Fin a) = Some (Fin r) \<and> ((r = a \<and> - pi \<le> a) \<or> (- pi \<le> r \<and> r < pi))"
proof (induction n arbitrary: a)
  case 0
  then have "\<not> a < - pi" by simp
  then show ?case by (subst normalizeAngle_up.simps) simp
next
  case (Suc n)
  show ?case
  proof (cases "a < - pi")
    case False
    then show ?thesis by (subst normalizeAngle_up.simps) simp
  next
    case True
    have neg: "a < 0" using True pi_gt_zero by linarith
    have na: "\<not> TURN_ABSORBED_ABOVE < \<bar>a\<bar>" using Suc.prems(1) neg by simp
    have b1: "- TURN_ABSORBED_ABOVE \<le> a + 2 * pi" using Suc.prems(1) pi_gt_zero by linarith
    have b2: "- pi - 2 * pi * real n \<le> a + 2 * pi" using Suc.prems(2) by (simp add: algebra_simps)
    from Suc.IH [OF b1 b2] obtain r where
      r: "normalizeAngle_up (Fin (a + 2 * pi)) = Some (Fin r)"
      and c: "(r = a + 2 * pi \<and> - pi \<le> a + 2 * pi) \<or> (- pi \<le> r \<and> r < pi)" by blast
    from c True have "- pi \<le> r \<and> r < pi" by auto
    moreover have "normalizeAngle_up (Fin a) = Some (Fin r)"
      using True na r by (subst normalizeAngle_up.simps) simp
    ultimately show ?thesis by blast
  qed
qed

lemma normalizeAngle_up_returns:
  assumes "- TURN_ABSORBED_ABOVE \<le> a"
  shows "\<exists>r. normalizeAngle_up (Fin a) = Some (Fin r) \<and> ((r = a \<and> - pi \<le> a) \<or> (- pi \<le> r \<and> r < pi))"
proof -
  obtain n :: nat where n: "- a / (2 * pi) \<le> real n" using real_arch_simple by blast
  have "- a \<le> 2 * pi * real n" using n pi_gt_zero by (simp add: field_simps)
  then have "- pi - 2 * pi * real n \<le> a" using pi_gt_zero by linarith
  from normalizeAngle_up_steps [OF assms this] show ?thesis .
qed

lemma normalizeAngle_returns:
  assumes "\<bar>a\<bar> \<le> TURN_ABSORBED_ABOVE"
  shows "\<exists>r. normalizeAngle (Fin a) = Some (Fin r) \<and> - pi \<le> r \<and> r \<le> pi"
proof -
  from assms have le: "a \<le> TURN_ABSORBED_ABOVE" and ge: "- TURN_ABSORBED_ABOVE \<le> a" by linarith+
  from normalizeAngle_down_returns [OF le] obtain r1 where
    d: "normalizeAngle_down (Fin a) = Some (Fin r1)"
    and c1: "(r1 = a \<and> a \<le> pi) \<or> (- pi < r1 \<and> r1 \<le> pi)" by blast
  have big: "pi < TURN_ABSORBED_ABOVE" using TURN_ABSORBED_ABOVE_gt pi_less_4 by linarith
  have ge1: "- TURN_ABSORBED_ABOVE \<le> r1" using c1 ge big by auto
  from normalizeAngle_up_returns [OF ge1] obtain r where
    u: "normalizeAngle_up (Fin r1) = Some (Fin r)"
    and c2: "(r = r1 \<and> - pi \<le> r1) \<or> (- pi \<le> r \<and> r < pi)" by blast
  have "r1 \<le> pi" using c1 by auto
  with c2 have "- pi \<le> r \<and> r \<le> pi" by auto
  moreover have "normalizeAngle (Fin a) = Some (Fin r)" by (simp add: normalizeAngle_def d u)
  ultimately show ?thesis by blast
qed

lemma normalizeAngle_down_Some:
  assumes ret: "normalizeAngle_down x = Some y"
  shows "x \<noteq> PInf \<and> (\<forall>a. x = Fin a \<longrightarrow> a \<le> TURN_ABSORBED_ABOVE)"
proof (rule normalizeAngle_down.raw_induct
         [where P = "\<lambda>x y. x \<noteq> PInf \<and> (\<forall>a. x = Fin a \<longrightarrow> a \<le> TURN_ABSORBED_ABOVE)"
            and angle = x and y = y])
  fix f angle z
  assume IH: "\<And>x y. f x = Some y \<Longrightarrow> x \<noteq> PInf \<and> (\<forall>a. x = Fin a \<longrightarrow> a \<le> TURN_ABSORBED_ABOVE)"
    and eq: "(if js_gt angle (Fin pi) then f (js_add_turn (- (2 * pi)) angle) else Some angle) = Some z"
  have big: "pi < TURN_ABSORBED_ABOVE" using TURN_ABSORBED_ABOVE_gt pi_less_4 by linarith
  show "angle \<noteq> PInf \<and> (\<forall>a. angle = Fin a \<longrightarrow> a \<le> TURN_ABSORBED_ABOVE)"
  proof (cases angle)
    case (Fin a)
    show ?thesis
    proof (cases "TURN_ABSORBED_ABOVE < a")
      case True
      have ab: "TURN_ABSORBED_ABOVE < \<bar>a\<bar>" using True by linarith
      have "pi < a" using True big by linarith
      then have "f (Fin a) = Some z" using eq ab Fin by (simp add: js_gt_def)
      from IH [OF this] True show ?thesis by simp
    next
      case False
      then show ?thesis using Fin by simp
    qed
  next
    case PInf
    then have "f PInf = Some z" using eq by (simp add: js_gt_def)
    from IH [OF this] show ?thesis by simp
  qed simp_all
next
  show "normalizeAngle_down x = Some y" by (rule ret)
qed

lemma normalizeAngle_up_Some:
  assumes ret: "normalizeAngle_up x = Some y"
  shows "x \<noteq> NInf \<and> (\<forall>a. x = Fin a \<longrightarrow> - TURN_ABSORBED_ABOVE \<le> a)"
proof (rule normalizeAngle_up.raw_induct
         [where P = "\<lambda>x y. x \<noteq> NInf \<and> (\<forall>a. x = Fin a \<longrightarrow> - TURN_ABSORBED_ABOVE \<le> a)"
            and angle = x and y = y])
  fix f angle z
  assume IH: "\<And>x y. f x = Some y \<Longrightarrow> x \<noteq> NInf \<and> (\<forall>a. x = Fin a \<longrightarrow> - TURN_ABSORBED_ABOVE \<le> a)"
    and eq: "(if js_lt angle (Fin (- pi)) then f (js_add_turn (2 * pi) angle) else Some angle) = Some z"
  have big: "pi < TURN_ABSORBED_ABOVE" using TURN_ABSORBED_ABOVE_gt pi_less_4 by linarith
  show "angle \<noteq> NInf \<and> (\<forall>a. angle = Fin a \<longrightarrow> - TURN_ABSORBED_ABOVE \<le> a)"
  proof (cases angle)
    case (Fin a)
    show ?thesis
    proof (cases "a < - TURN_ABSORBED_ABOVE")
      case True
      have ab: "TURN_ABSORBED_ABOVE < \<bar>a\<bar>" using True by linarith
      have "a < - pi" using True big by linarith
      then have "f (Fin a) = Some z" using eq ab Fin by simp
      from IH [OF this] True show ?thesis by simp
    next
      case False
      then show ?thesis using Fin by simp
    qed
  next
    case NInf
    then have "f NInf = Some z" using eq by simp
    from IH [OF this] show ?thesis by simp
  qed simp_all
next
  show "normalizeAngle_up x = Some y" by (rule ret)
qed

text \<open>Where the call never returns, and what it makes of NaN.\<close>

lemma normalizeAngle_never_returns:
  "TURN_ABSORBED_ABOVE < \<bar>a\<bar> \<Longrightarrow> normalizeAngle (Fin a) = None"
  "normalizeAngle PInf = None"
  "normalizeAngle NInf = None"
proof -
  have big: "pi < TURN_ABSORBED_ABOVE" using TURN_ABSORBED_ABOVE_gt pi_less_4 by linarith
  show "normalizeAngle PInf = None"
  proof (cases "normalizeAngle_down PInf")
    case None then show ?thesis by (simp add: normalizeAngle_def)
  next
    case (Some y) from normalizeAngle_down_Some [OF this] show ?thesis by simp
  qed
  have dn: "normalizeAngle_down NInf = Some NInf"
    by (subst normalizeAngle_down.simps) (simp add: js_gt_def)
  show "normalizeAngle NInf = None"
  proof (cases "normalizeAngle_up NInf")
    case None then show ?thesis by (simp add: normalizeAngle_def dn)
  next
    case (Some y) from normalizeAngle_up_Some [OF this] show ?thesis by simp
  qed
  assume a: "TURN_ABSORBED_ABOVE < \<bar>a\<bar>"
  show "normalizeAngle (Fin a) = None"
  proof (cases "0 \<le> a")
    case True
    show ?thesis
    proof (cases "normalizeAngle_down (Fin a)")
      case None then show ?thesis by (simp add: normalizeAngle_def)
    next
      case (Some y) from normalizeAngle_down_Some [OF this] a True show ?thesis by simp
    qed
  next
    case False
    then have "\<not> pi < a" using pi_gt_zero by linarith
    then have dn: "normalizeAngle_down (Fin a) = Some (Fin a)"
      by (subst normalizeAngle_down.simps) (simp add: js_gt_def)
    show ?thesis
    proof (cases "normalizeAngle_up (Fin a)")
      case None then show ?thesis by (simp add: normalizeAngle_def dn)
    next
      case (Some y) from normalizeAngle_up_Some [OF this] a False show ?thesis by simp
    qed
  qed
qed

lemma normalizeAngle_NaN: "normalizeAngle NaN = Some NaN"
  by (simp add: normalizeAngle_def normalizeAngle_down.simps [of NaN]
        normalizeAngle_up.simps [of NaN] js_gt_def)

lemma normalizeAngle_minus_pi: "normalizeAngle (Fin (- pi)) = Some (Fin (- pi))"
  by (simp add: normalizeAngle_def normalizeAngle_down.simps [of "Fin (- pi)"]
        normalizeAngle_up.simps [of "Fin (- pi)"] js_gt_def)

text \<open>
  C7, as stated: for every finite angle the result lies in the half-open interval
  \<open>(-\<pi>, \<pi>]\<close>. The second loop runs while the angle is below \<open>-\<pi>\<close>, so \<open>-\<pi>\<close> itself
  is returned as it is, and a ship at rotation 0 that turns left for \<open>250\<pi>\<close>
  milliseconds ends at \<open>-\<pi>\<close>. And for the finite angle \<open>2 ^ 57\<close> the call never returns.
\<close>

theorem normalizeAngle_minus_pi_counterexample:
  "normalizeAngle (Fin (- pi)) = Some (Fin (- pi))
   \<and> \<not> (- pi < - pi \<and> - pi \<le> pi)
   \<and> updateRotation (250 * pi)
        ((new_Ship 0 \<lparr>vec_x = Fin 200, vec_y = Fin 300\<rparr>)
           \<lparr>input := \<lparr>thrust = False, rotateLeft = True, rotateRight = False, shoot = False\<rparr>\<rparr>)
      = Some ((new_Ship 0 \<lparr>vec_x = Fin 200, vec_y = Fin 300\<rparr>)
           \<lparr>input := \<lparr>thrust = False, rotateLeft = True, rotateRight = False, shoot = False\<rparr>,
            rotation := - pi\<rparr>)
   \<and> normalizeAngle (Fin (2 ^ 57)) = None"
proof -
  have "(2::real) ^ 56 < 2 ^ 57" by (rule power_strict_increasing) simp_all
  then have "TURN_ABSORBED_ABOVE < \<bar>(2::real) ^ 57\<bar>" unfolding TURN_ABSORBED_ABOVE_def by simp
  then have n: "normalizeAngle (Fin (2 ^ 57)) = None" by (rule normalizeAngle_never_returns(1))
  show ?thesis
    by (simp add: n normalizeAngle_minus_pi updateRotation_def Let_def new_Ship_def
          SHIP_ROTATION_SPEED_def del: power_numeral)
qed

text \<open>
  C7, amended. For every finite angle of a magnitude up to \<open>2 ^ 56\<close>,
  \<^verbatim>\<open>normalizeAngle\<close> returns, and the value lies in the closed interval \<open>[-\<pi>, \<pi>]\<close>.
  After an update with a rotation input (exactly one of left and right), when the
  rotation with its increment has a magnitude up to \<open>2 ^ 56\<close>, the update returns and
  the ship's rotation lies in \<open>[-\<pi>, \<pi>]\<close>.
\<close>

theorem normalizeAngle_range:
  "(\<bar>a\<bar> \<le> TURN_ABSORBED_ABOVE \<longrightarrow>
      (\<exists>r. normalizeAngle (Fin a) = Some (Fin r) \<and> - pi \<le> r \<and> r \<le> pi))
   \<and> (rotateLeft (input s) \<noteq> rotateRight (input s)
       \<and> \<bar>rotation s + (if rotateLeft (input s) then - 1 else 1) * SHIP_ROTATION_SPEED * (dt / 1000)\<bar>
            \<le> TURN_ABSORBED_ABOVE \<longrightarrow>
      (\<exists>s'. updateRotation dt s = Some s' \<and> - pi \<le> rotation s' \<and> rotation s' \<le> pi))"
proof (intro conjI impI)
  assume "\<bar>a\<bar> \<le> TURN_ABSORBED_ABOVE"
  then show "\<exists>r. normalizeAngle (Fin a) = Some (Fin r) \<and> - pi \<le> r \<and> r \<le> pi"
    by (rule normalizeAngle_returns)
next
  let ?b = "rotation s + (if rotateLeft (input s) then - 1 else 1) * SHIP_ROTATION_SPEED * (dt / 1000)"
  assume h: "rotateLeft (input s) \<noteq> rotateRight (input s) \<and> \<bar>?b\<bar> \<le> TURN_ABSORBED_ABOVE"
  then obtain r where r: "normalizeAngle (Fin ?b) = Some (Fin r)" and b: "- pi \<le> r" "r \<le> pi"
    using normalizeAngle_returns [of ?b] by blast
  have "updateRotation dt s = Some (s\<lparr>rotation := r\<rparr>)"
  proof (cases "rotateLeft (input s)")
    case True
    with h have "\<not> rotateRight (input s)" by simp
    with True r show ?thesis by (simp add: updateRotation_def Let_def)
  next
    case False
    with h have "rotateRight (input s)" by simp
    with False r show ?thesis by (simp add: updateRotation_def Let_def)
  qed
  with b show "\<exists>s'. updateRotation dt s = Some s' \<and> - pi \<le> rotation s' \<and> rotation s' \<le> pi"
    by simp
qed

text \<open>The angle 4, and a ship at rotation 0 that turns left for one second.\<close>

theorem normalizeAngle_range_witness:
  "\<bar>4\<bar> \<le> TURN_ABSORBED_ABOVE
   \<and> (\<exists>r. normalizeAngle (Fin 4) = Some (Fin r) \<and> - pi \<le> r \<and> r \<le> pi)
   \<and> rotateLeft (input ((new_Ship 0 \<lparr>vec_x = Fin 200, vec_y = Fin 300\<rparr>)
        \<lparr>input := \<lparr>thrust = False, rotateLeft = True, rotateRight = False, shoot = False\<rparr>\<rparr>))
       \<noteq> rotateRight (input ((new_Ship 0 \<lparr>vec_x = Fin 200, vec_y = Fin 300\<rparr>)
        \<lparr>input := \<lparr>thrust = False, rotateLeft = True, rotateRight = False, shoot = False\<rparr>\<rparr>))
   \<and> (\<exists>s'. updateRotation 1000 ((new_Ship 0 \<lparr>vec_x = Fin 200, vec_y = Fin 300\<rparr>)
        \<lparr>input := \<lparr>thrust = False, rotateLeft = True, rotateRight = False, shoot = False\<rparr>\<rparr>) = Some s'
         \<and> - pi \<le> rotation s' \<and> rotation s' \<le> pi)"
  using normalizeAngle_range
          [of 4 "(new_Ship 0 \<lparr>vec_x = Fin 200, vec_y = Fin 300\<rparr>)
                   \<lparr>input := \<lparr>thrust = False, rotateLeft = True, rotateRight = False, shoot = False\<rparr>\<rparr>"
              1000]
        TURN_ABSORBED_ABOVE_gt
  by (simp add: new_Ship_def SHIP_ROTATION_SPEED_def)


section \<open>Angle interpolation\<close>

text \<open>
  C8, as stated: the difference is normalised into \<open>(-\<pi>, \<pi>]\<close> before it is scaled. The
  function corrects the difference by one turn at most: from 0 to 20 the difference used
  is \<open>20 - 2\<pi>\<close>, more than \<open>\<pi>\<close>, and the interpolation at \<open>alpha = 1\<close> ends there.
  And a difference of \<open>-\<pi>\<close>, as from \<open>\<pi>\<close> to 0, is used as it is.
\<close>

theorem interpolateAngle_far_counterexample:
  "\<not> (- pi < interpolateAngle_diff 0 20 \<and> interpolateAngle_diff 0 20 \<le> pi)
   \<and> interpolateAngle 0 20 1 = 20 - 2 * pi
   \<and> \<not> (- pi < interpolateAngle_diff pi 0 \<and> interpolateAngle_diff pi 0 \<le> pi)"
  using pi_less_4 pi_ge_two
  by (simp add: interpolateAngle_diff_def interpolateAngle_def Let_def)

text \<open>
  C8, amended. \<^verbatim>\<open>interpolateAngle\<close> adds to \<open>from\<close> the corrected difference scaled by
  \<open>alpha\<close>. When \<open>to - from\<close> is within three half-turns (as it is for two rotations in
  \<open>[-\<pi>, \<pi>]\<close>) the corrected difference lies in \<open>[-\<pi>, \<pi>]\<close> and is \<open>to - from\<close> shifted by
  no turn or by one: the interpolation runs along a shorter arc. From 3 to -3 at
  \<open>alpha = 1/2\<close> the result is \<open>\<pi>\<close>.
\<close>

theorem interpolateAngle_shorter_arc:
  "interpolateAngle f t alpha = f + interpolateAngle_diff f t * alpha
   \<and> (\<bar>t - f\<bar> \<le> 3 * pi \<longrightarrow>
        - pi \<le> interpolateAngle_diff f t \<and> interpolateAngle_diff f t \<le> pi
      \<and> (interpolateAngle_diff f t = t - f
         \<or> interpolateAngle_diff f t = t - f - 2 * pi
         \<or> interpolateAngle_diff f t = t - f + 2 * pi))
   \<and> interpolateAngle 3 (- 3) (1 / 2) = pi"
proof (intro conjI impI)
  show "interpolateAngle f t alpha = f + interpolateAngle_diff f t * alpha"
    by (simp add: interpolateAngle_def interpolateAngle_diff_def Let_def)
  show "interpolateAngle 3 (- 3) (1 / 2) = pi"
    using pi_less_4 pi_ge_two by (simp add: interpolateAngle_def Let_def field_simps)
next
  assume a: "\<bar>t - f\<bar> \<le> 3 * pi"
  then show "- pi \<le> interpolateAngle_diff f t" and "interpolateAngle_diff f t \<le> pi"
    by (auto simp: interpolateAngle_diff_def Let_def)
  show "interpolateAngle_diff f t = t - f
         \<or> interpolateAngle_diff f t = t - f - 2 * pi
         \<or> interpolateAngle_diff f t = t - f + 2 * pi"
    by (auto simp: interpolateAngle_diff_def Let_def)
qed

theorem interpolateAngle_shorter_arc_witness:
  "\<bar>- 3 - 3\<bar> \<le> 3 * pi
   \<and> - pi \<le> interpolateAngle_diff 3 (- 3) \<and> interpolateAngle_diff 3 (- 3) \<le> pi
   \<and> interpolateAngle 3 (- 3) (1 / 2) = pi"
  using interpolateAngle_shorter_arc [of 3 "- 3" "1 / 2"] pi_ge_two
  by simp


section \<open>Respawn invulnerability\<close>

text \<open>
  C9. After \<^verbatim>\<open>respawn(pos, t)\<close> the ship is invulnerable until
  \<open>t + SHIP_INVULNERABILITY_TIME\<close>: \<^verbatim>\<open>takeDamage\<close> at an earlier time returns false and
  leaves the ship as it is; from that time on the damage is applied: the health drops by
  the damage, and the ship is killed (health 0, return value true) when nothing is left.
\<close>

theorem respawn_invulnerability:
  "invulnerableUntil (respawn pos t s) = t + SHIP_INVULNERABILITY_TIME
   \<and> (t1 < invulnerableUntil (respawn pos t s) \<longrightarrow>
        takeDamage d t1 (respawn pos t s) = (False, respawn pos t s))
   \<and> (invulnerableUntil (respawn pos t s) \<le> t2 \<longrightarrow>
        fst (takeDamage d t2 (respawn pos t s)) = (maxHealth s - d \<le> 0)
      \<and> health (snd (takeDamage d t2 (respawn pos t s))) = max 0 (maxHealth s - d)
      \<and> isAlive (snd (takeDamage d t2 (respawn pos t s))) = (0 < maxHealth s - d))"
  by (auto simp: respawn_def takeDamage_def isInvulnerable_def Let_def die_def)

text \<open>
  A respawn at time 1000: a hit of 25 at time 2999 does nothing, the same hit at time 3000
  leaves 75 health.
\<close>

theorem respawn_invulnerability_witness:
  "2999 < invulnerableUntil (respawn \<lparr>vec_x = Fin 600, vec_y = Fin 300\<rparr> 1000
                              (new_Ship 1 \<lparr>vec_x = Fin 600, vec_y = Fin 300\<rparr>))
   \<and> invulnerableUntil (respawn \<lparr>vec_x = Fin 600, vec_y = Fin 300\<rparr> 1000
                              (new_Ship 1 \<lparr>vec_x = Fin 600, vec_y = Fin 300\<rparr>)) \<le> 3000
   \<and> takeDamage 25 2999 (respawn \<lparr>vec_x = Fin 600, vec_y = Fin 300\<rparr> 1000
                              (new_Ship 1 \<lparr>vec_x = Fin 600, vec_y = Fin 300\<rparr>))
       = (False, respawn \<lparr>vec_x = Fin 600, vec_y = Fin 300\<rparr> 1000
                              (new_Ship 1 \<lparr>vec_x = Fin 600, vec_y = Fin 300\<rparr>))
   \<and> health (snd (takeDamage 25 3000 (respawn \<lparr>vec_x = Fin 600, vec_y = Fin 300\<rparr> 1000
                              (new_Ship 1 \<lparr>vec_x = Fin 600, vec_y = Fin 300\<rparr>)))) = 75"
  using respawn_invulnerability
          [of "\<lparr>vec_x = Fin 600, vec_y = Fin 300\<rparr>" 1000
              "new_Ship 1 \<lparr>vec_x = Fin 600, vec_y = Fin 300\<rparr>" 2999 25 3000]
  by (simp add: SHIP_INVULNERABILITY_TIME_def new_Ship_def SHIP_MAX_HEALTH_def)


section \<open>Guarded division in Vector2D\<close>

lemma abs_le_sqrt_sq: "\<bar>a\<bar> \<le> sqrt (a * a + b * b)"
proof -
  have "sqrt (a * a) \<le> sqrt (a * a + b * b)" by (rule real_sqrt_le_mono) simp
  then show ?thesis by simp
qed

lemma div_sqrt_bound: "0 < sqrt (a * a + b * b) \<Longrightarrow> \<bar>a / sqrt (a * a + b * b)\<bar> \<le> 1"
  using abs_le_sqrt_sq [of a b] by (simp add: field_simps)

lemma div_sqrt_bound2: "0 < sqrt (a * a + b * b) \<Longrightarrow> \<bar>b / sqrt (a * a + b * b)\<bar> \<le> 1"
  using abs_le_sqrt_sq [of b a] by (simp add: field_simps add.commute)

lemma magnitude_Fin:
  "magnitude \<lparr>vec_x = Fin a, vec_y = Fin b\<rparr> = PInf \<or>
   magnitude \<lparr>vec_x = Fin a, vec_y = Fin b\<rparr> = Fin (sqrt (a * a + b * b))"
proof -
  have xa: "js_of_real (a * a) = PInf \<or> js_of_real (a * a) = Fin (a * a)"
    by (rule js_of_real_nonneg) simp
  have xb: "js_of_real (b * b) = PInf \<or> js_of_real (b * b) = Fin (b * b)"
    by (rule js_of_real_nonneg) simp
  have s: "js_of_real (a * a + b * b) = PInf \<or> js_of_real (a * a + b * b) = Fin (a * a + b * b)"
    by (rule js_of_real_nonneg) simp
  have nn: "\<not> a * a + b * b < 0" by (simp add: not_less)
  from xa xb s nn show ?thesis
    unfolding magnitude_def by auto
qed

lemma normalize_Fin:
  "\<exists>a' b'. normalize_vec \<lparr>vec_x = Fin a, vec_y = Fin b\<rparr> = \<lparr>vec_x = Fin a', vec_y = Fin b'\<rparr>"
proof -
  let ?v = "\<lparr>vec_x = Fin a, vec_y = Fin b\<rparr>"
  from magnitude_Fin [of a b] show ?thesis
  proof
    assume "magnitude ?v = PInf"
    then show ?thesis by (simp add: normalize_vec_def Let_def js_gt_def divide_vec_def)
  next
    assume m: "magnitude ?v = Fin (sqrt (a * a + b * b))"
    show ?thesis
    proof (cases "0 < sqrt (a * a + b * b)")
      case True
      then show ?thesis
        using div_sqrt_bound [OF True] div_sqrt_bound2 [OF True]
        by (simp add: normalize_vec_def Let_def m js_gt_def divide_vec_def js_of_real_small)
    next
      case False
      then show ?thesis by (simp add: normalize_vec_def Let_def m js_gt_def)
    qed
  qed
qed

lemma divide_zero: "divide_vec (Fin 0) v = v"
  by (simp add: divide_vec_def)

lemma normalize_zero:
  "normalize_vec \<lparr>vec_x = Fin 0, vec_y = Fin 0\<rparr> = \<lparr>vec_x = Fin 0, vec_y = Fin 0\<rparr>"
  using JS_OVERFLOW_gt_one
  by (simp add: normalize_vec_def Let_def magnitude_def js_of_real_def js_gt_def)

lemma divide_Fin_not_NaN:
  "vec_x (divide_vec (Fin c) \<lparr>vec_x = Fin a, vec_y = Fin b\<rparr>) \<noteq> NaN \<and>
   vec_y (divide_vec (Fin c) \<lparr>vec_x = Fin a, vec_y = Fin b\<rparr>) \<noteq> NaN"
  by (simp add: divide_vec_def js_of_real_not_NaN)

text \<open>
  C10, as stated: neither \<^verbatim>\<open>divide\<close> nor \<^verbatim>\<open>normalize\<close> can turn finite components
  into NaN or an infinity. The guard of \<^verbatim>\<open>divide\<close> excludes the scalar 0 only: the
  finite vector \<open>(2 ^ 1000, 0)\<close> divided by the finite, non-zero scalar \<open>2 ^ -1000\<close> has
  the first component \<open>2 ^ 2000\<close>, beyond the largest double, that is \<^verbatim>\<open>Infinity\<close>.
  And the scalar NaN passes the guard and makes both components NaN.
\<close>

theorem divide_overflow_counterexample:
  "is_finite (Fin (2 ^ 1000)) \<and> is_finite (Fin 0) \<and> is_finite (Fin (1 / 2 ^ 1000))
   \<and> vec_x (divide_vec (Fin (1 / 2 ^ 1000)) \<lparr>vec_x = Fin (2 ^ 1000), vec_y = Fin 0\<rparr>) = PInf
   \<and> \<not> is_finite (vec_x (divide_vec (Fin (1 / 2 ^ 1000)) \<lparr>vec_x = Fin (2 ^ 1000), vec_y = Fin 0\<rparr>))
   \<and> vec_x (divide_vec NaN \<lparr>vec_x = Fin 1, vec_y = Fin 0\<rparr>) = NaN"
proof -
  have e: "(2::real) ^ 1000 * 2 ^ 1000 = 2 ^ 2000" by (simp only: power_add [symmetric]) simp
  have "(2::real) ^ 1024 \<le> 2 ^ 2000" by (rule power_increasing) simp_all
  then have "js_of_real (2 ^ 1000 * 2 ^ 1000) = PInf"
    by (simp only: js_of_real_def JS_OVERFLOW_def e if_True)
  moreover have "(1::real) / 2 ^ 1000 \<noteq> 0" by simp
  ultimately show ?thesis by (simp add: divide_vec_def del: power_eq_0_iff)
qed

text \<open>
  C10, amended. \<^verbatim>\<open>divide(0)\<close> leaves every vector as it is, and \<^verbatim>\<open>normalize\<close> leaves
  the zero vector as it is. Neither operation divides by zero: \<^verbatim>\<open>normalize\<close> keeps
  finite components finite, and \<^verbatim>\<open>divide\<close> by a finite scalar never makes a finite
  component NaN.
\<close>

theorem divide_normalize_guarded:
  "divide_vec (Fin 0) v = v
   \<and> normalize_vec \<lparr>vec_x = Fin 0, vec_y = Fin 0\<rparr> = \<lparr>vec_x = Fin 0, vec_y = Fin 0\<rparr>
   \<and> (is_finite (vec_x v) \<and> is_finite (vec_y v) \<longrightarrow>
        is_finite (vec_x (normalize_vec v)) \<and> is_finite (vec_y (normalize_vec v)))
   \<and> (is_finite (vec_x v) \<and> is_finite (vec_y v) \<and> is_finite scalar \<longrightarrow>
        vec_x (divide_vec scalar v) \<noteq> NaN \<and> vec_y (divide_vec scalar v) \<noteq> NaN)"
proof (intro conjI impI)
  show "divide_vec (Fin 0) v = v" by (rule divide_zero)
  show "normalize_vec \<lparr>vec_x = Fin 0, vec_y = Fin 0\<rparr> = \<lparr>vec_x = Fin 0, vec_y = Fin 0\<rparr>"
    by (rule normalize_zero)
next
  assume fin: "is_finite (vec_x v) \<and> is_finite (vec_y v)"
  then obtain a b where v: "v = \<lparr>vec_x = Fin a, vec_y = Fin b\<rparr>"
    by (cases v) (auto simp: is_finite_iff)
  from normalize_Fin [of a b] obtain a' b' where "normalize_vec v = \<lparr>vec_x = Fin a', vec_y = Fin b'\<rparr>"
    unfolding v by blast
  then show "is_finite (vec_x (normalize_vec v))" and "is_finite (vec_y (normalize_vec v))" by simp_all
next
  assume fin: "is_finite (vec_x v) \<and> is_finite (vec_y v) \<and> is_finite scalar"
  then obtain a b c where v: "v = \<lparr>vec_x = Fin a, vec_y = Fin b\<rparr>" and c: "scalar = Fin c"
    by (cases v) (auto simp: is_finite_iff)
  show "vec_x (divide_vec scalar v) \<noteq> NaN" and "vec_y (divide_vec scalar v) \<noteq> NaN"
    using divide_Fin_not_NaN [of c a b] unfolding v c by simp_all
qed

theorem divide_normalize_guarded_witness:
  "is_finite (vec_x \<lparr>vec_x = Fin 3, vec_y = Fin 4\<rparr>)
   \<and> is_finite (vec_y \<lparr>vec_x = Fin 3, vec_y = Fin 4\<rparr>)
   \<and> is_finite (Fin 2)
   \<and> divide_vec (Fin 0) \<lparr>vec_x = Fin 3, vec_y = Fin 4\<rparr> = \<lparr>vec_x = Fin 3, vec_y = Fin 4\<rparr>
   \<and> is_finite (vec_x (normalize_vec \<lparr>vec_x = Fin 3, vec_y = Fin 4\<rparr>))
   \<and> is_finite (vec_y (normalize_vec \<lparr>vec_x = Fin 3, vec_y = Fin 4\<rparr>))
   \<and> vec_x (divide_vec (Fin 2) \<lparr>vec_x = Fin 3, vec_y = Fin 4\<rparr>) \<noteq> NaN
   \<and> vec_y (divide_vec (Fin 2) \<lparr>vec_x = Fin 3, vec_y = Fin 4\<rparr>) \<noteq> NaN"
  using divide_normalize_guarded [of "\<lparr>vec_x = Fin 3, vec_y = Fin 4\<rparr>" "Fin 2"]
  by simp

end
